theory Spec2Isabelle
  imports Main "HOL-Library.Word"
begin

unbundle bit_operations_syntax

section \<open>The overlay inode layer (fs/overlayfs/inode.c)\<close>

text \<open>
  A shallow embedding of the functions of \<^verbatim>\<open>fs/overlayfs/inode.c\<close> that resolve the
  overlay inode, keep its link count and pass attributes, permissions and extended
  attributes through to the underlying objects. C integers are words of their width,
  pointers are options (\<open>None\<close> is \<^verbatim>\<open>NULL\<close>), a function that returns \<^verbatim>\<open>int\<close>
  returns \<open>int\<close> (0, or a negated errno), and a function that returns a pointer or
  \<^verbatim>\<open>ERR_PTR\<close> returns a sum whose left side is the negated errno. A function that can
  dereference \<^verbatim>\<open>NULL\<close> returns an option, \<open>None\<close> for the fault. State that a function
  changes is passed in and returned. Locks, reference counts and the warnings
  (\<^verbatim>\<open>WARN_ON\<close>, \<^verbatim>\<open>pr_warn_ratelimited\<close>) are not modelled.
\<close>

subsection \<open>Kernel types and constants\<close>

type_synonym u16 = "16 word"
type_synonym u32 = "32 word"
type_synonym u64 = "64 word"

text \<open>
  Modelled from the spec: the error kinds, with the errno numbers of Linux
  (\<^verbatim>\<open>include/uapi/asm-generic/errno-base.h\<close> and \<^verbatim>\<open>errno.h\<close>, not among the sources).
\<close>

definition EPERM :: int where "EPERM = 1"
definition EIO :: int where "EIO = 5"
definition ECHILD :: int where "ECHILD = 10"
definition ENOMEM :: int where "ENOMEM = 12"
definition EACCES :: int where "EACCES = 13"
definition EINVAL :: int where "EINVAL = 22"
definition EEXIST :: int where "EEXIST = 17"
definition ERANGE :: int where "ERANGE = 34"
definition ENODATA :: int where "ENODATA = 61"
definition ESTALE :: int where "ESTALE = 116"

text \<open>
  Modelled from the spec: the node kinds, as the file-type bits of \<^verbatim>\<open>i_mode\<close> with the
  macros \<^verbatim>\<open>S_ISDIR\<close> and \<^verbatim>\<open>special_file\<close> (\<^verbatim>\<open>include/uapi/linux/stat.h\<close> and
  \<^verbatim>\<open>include/linux/fs.h\<close>, not among the sources; the bits are octal there).
\<close>

definition S_IFMT :: u16 where "S_IFMT = 0xF000"
definition S_IFSOCK :: u16 where "S_IFSOCK = 0xC000"
definition S_IFLNK :: u16 where "S_IFLNK = 0xA000"
definition S_IFREG :: u16 where "S_IFREG = 0x8000"
definition S_IFBLK :: u16 where "S_IFBLK = 0x6000"
definition S_IFDIR :: u16 where "S_IFDIR = 0x4000"
definition S_IFCHR :: u16 where "S_IFCHR = 0x2000"
definition S_IFIFO :: u16 where "S_IFIFO = 0x1000"

definition S_ISDIR :: "u16 \<Rightarrow> bool" where
  "S_ISDIR m = (m AND S_IFMT = S_IFDIR)"

definition special_file :: "u16 \<Rightarrow> bool" where
  "special_file m =
     (m AND S_IFMT = S_IFCHR \<or> m AND S_IFMT = S_IFBLK \<or>
      m AND S_IFMT = S_IFIFO \<or> m AND S_IFMT = S_IFSOCK)"

text \<open>
  \<^verbatim>\<open>struct inode\<close>, with the fields this file reads or writes. \<open>i_addr\<close> is the
  address of the structure: two inode pointers are equal when the addresses are.
\<close>

record inode =
  i_addr :: nat
  i_mode :: u16
  i_nlink :: u32
  i_ino :: u64
  i_rdev :: u32
  i_uid :: u32
  i_gid :: u32
  i_atime :: int
  i_mtime :: int
  i_ctime :: int

text \<open>
  The extended attributes of an object of an underlying filesystem: for each name either
  the stored bytes (\<open>Inr\<close>) or the negated errno the filesystem answers a read with
  (\<open>Inl\<close>, \<^verbatim>\<open>-ENODATA\<close> for an attribute that is not there).
\<close>

type_synonym xattrs = "string \<Rightarrow> int + string"

text \<open>
  \<^verbatim>\<open>struct dentry\<close> of an underlying filesystem: a positive dentry with its inode and
  the attributes stored on the object. The object answers a request to store or remove an
  attribute with 0 or with a negated errno: \<open>d_setxattr_err\<close> is that answer, by
  attribute name.
\<close>

record dentry =
  d_inode :: inode
  d_xattr :: xattrs
  d_setxattr_err :: "string \<Rightarrow> int"

text \<open>
  Modelled from the spec: \<^verbatim>\<open>d_is_dir\<close> (\<^verbatim>\<open>include/linux/dcache.h\<close>, not among the
  sources) tells whether the object is a directory; it reads the type bits the dcache
  keeps in \<^verbatim>\<open>d_flags\<close>, which for a positive dentry are set from the mode of its inode.
\<close>

definition d_is_dir :: "dentry \<Rightarrow> bool" where
  "d_is_dir d = S_ISDIR (i_mode (d_inode d))"

text \<open>
  \<^verbatim>\<open>struct super_block\<close> of the overlay mount with the \<^verbatim>\<open>struct ovl_fs\<close> behind
  \<^verbatim>\<open>s_fs_info\<close>: the pointers are kept as the address they hold, \<open>None\<close> for
  \<^verbatim>\<open>NULL\<close>. \<open>same_sb\<close> is what \<^verbatim>\<open>ovl_same_sb\<close> answers and \<open>indexdir\<close> what
  \<^verbatim>\<open>ovl_indexdir\<close> answers.
\<close>

record super_block =
  s_dev :: u32
  s_export_op :: "nat option"
  upper_mnt :: "nat option"
  indexdir :: "nat option"
  same_sb :: bool

datatype ovl_flag = OVL_IMPURE | OVL_INDEX

text \<open>
  \<^verbatim>\<open>struct ovl_inode\<close>: the VFS inode of the overlay with the upper dentry, the lower
  inode and the flags that \<^verbatim>\<open>OVL_I(inode)\<close> holds. \<open>i_private\<close> is the address the
  inode is hashed by, \<open>I_NEW\<close> the bit of that name in \<^verbatim>\<open>i_state\<close>.
\<close>

record ovl_inode = inode +
  ovl_upperdentry :: "dentry option"
  ovl_lower :: "inode option"
  ovl_flags :: "ovl_flag set"
  i_private :: "nat option"
  I_NEW :: bool

text \<open>
  An overlay dentry: its inode, the lower stack of its \<^verbatim>\<open>struct ovl_entry\<close> and the
  super block of the mount.
\<close>

record ovl_dentry =
  od_inode :: ovl_inode
  od_lowerstack :: "dentry list"
  d_sb :: super_block

text \<open>
  Modelled from the spec: the accessors of the ownership references of a logical node
  (\<^verbatim>\<open>ovl_test_flag\<close>, \<^verbatim>\<open>ovl_inode_upper\<close>, \<^verbatim>\<open>ovl_inode_lower\<close>, \<^verbatim>\<open>ovl_dentry_upper\<close>,
  \<^verbatim>\<open>ovl_dentry_lower\<close> and \<^verbatim>\<open>ovl_dentry_real\<close> of overlayfs.h and util.c, not among the
  sources): the upper dentry is the one of the overlay inode, the lower dentry the head of
  the lower stack, and the real dentry the upper one if present, else the lower one.
\<close>

definition ovl_test_flag :: "ovl_flag \<Rightarrow> ovl_inode \<Rightarrow> bool" where
  "ovl_test_flag f inode = (f \<in> ovl_flags inode)"

definition ovl_inode_upper :: "ovl_inode \<Rightarrow> inode option" where
  "ovl_inode_upper inode = map_option d_inode (ovl_upperdentry inode)"

definition ovl_inode_lower :: "ovl_inode \<Rightarrow> inode option" where
  "ovl_inode_lower inode = ovl_lower inode"

definition ovl_dentry_upper :: "ovl_dentry \<Rightarrow> dentry option" where
  "ovl_dentry_upper dentry = ovl_upperdentry (od_inode dentry)"

definition ovl_dentry_lower :: "ovl_dentry \<Rightarrow> dentry option" where
  "ovl_dentry_lower dentry =
     (case od_lowerstack dentry of [] \<Rightarrow> None | l # _ \<Rightarrow> Some l)"

definition ovl_dentry_real :: "ovl_dentry \<Rightarrow> dentry option" where
  "ovl_dentry_real dentry =
     (if ovl_dentry_upper dentry \<noteq> None then ovl_dentry_upper dentry
      else ovl_dentry_lower dentry)"

subsection \<open>The cache key policy\<close>

text \<open>\<^verbatim>\<open>ovl_hash_bylower\<close>: does the overlay inode need to be hashed by the lower inode?\<close>

definition ovl_hash_bylower ::
  "super_block \<Rightarrow> dentry option \<Rightarrow> dentry option \<Rightarrow> dentry option \<Rightarrow> bool" where
  "ovl_hash_bylower sb upper lower index =
     (case lower of
        None \<Rightarrow> False
      | Some l \<Rightarrow>
          if index \<noteq> None then True
          else if upper_mnt sb = None then True
          else if (upper \<noteq> None \<or> indexdir sb = None) \<and>
                  \<not> d_is_dir l \<and> 1 < unat (i_nlink (d_inode l)) then False
          else if s_export_op sb \<noteq> None \<and> upper \<noteq> None then False
          else True)"

subsection \<open>The link count codec\<close>

text \<open>
  Modelled from the spec: the reserved-namespace key of the link count delta record
  (\<^verbatim>\<open>OVL_XATTR_PREFIX\<close> and \<^verbatim>\<open>OVL_XATTR_NLINK\<close> of overlayfs.h, not among the sources).
\<close>

definition OVL_XATTR_PREFIX :: string where
  "OVL_XATTR_PREFIX = ''trusted.overlay.''"

definition OVL_XATTR_NLINK :: string where
  "OVL_XATTR_NLINK = OVL_XATTR_PREFIX @ ''nlink''"

definition NUL :: char where
  "NUL = CHR 0x00"

text \<open>The C string that starts at the head of a buffer: the bytes before the first NUL.\<close>

definition c_string :: "string \<Rightarrow> string" where
  "c_string buf = takeWhile (\<lambda>c. c \<noteq> NUL) buf"

text \<open>
  Modelled from the spec: \<^verbatim>\<open>snprintf\<close> (lib/vsprintf.c, not among the sources) with the
  two formats of this file, \<^verbatim>\<open>"U%+i"\<close> and \<^verbatim>\<open>"L%+i"\<close>: the selector letter, the sign
  (always printed, \<^verbatim>\<open>+\<close> for zero) and the decimal digits of the magnitude. The format
  is given by its selector letter, the argument is the \<^verbatim>\<open>int\<close> printed. \<open>dec\<close> gives
  the decimal digits of a number that is not negative.
\<close>

definition digit_char :: "int \<Rightarrow> char" where
  "digit_char n = ''0123456789'' ! nat n"

function dec :: "int \<Rightarrow> string" where
  "dec n = (if n < 10 then [digit_char n] else dec (n div 10) @ [digit_char (n mod 10)])"
  by pat_completeness auto
termination
  by (relation "measure nat") auto

declare dec.simps [simp del]

definition snprintf_nlink :: "char \<Rightarrow> int \<Rightarrow> string" where
  "snprintf_nlink selector i =
     selector # (if 0 \<le> i then CHR ''+'' else CHR ''-'') # dec \<bar>i\<bar>"

text \<open>
  Modelled from the spec: \<^verbatim>\<open>vfs_getxattr\<close> (fs/xattr.c, not among the sources), the
  attribute store's get(name) into a buffer of \<open>sz\<close> bytes: the store's error, or
  \<^verbatim>\<open>-ERANGE\<close> when the buffer is given (\<open>sz\<close> is not 0) and the value does not fit,
  or the bytes (the C function returns their number).
\<close>

definition vfs_getxattr :: "dentry \<Rightarrow> string \<Rightarrow> nat \<Rightarrow> int + string" where
  "vfs_getxattr d name sz =
     (case d_xattr d name of
        Inl err \<Rightarrow> Inl err
      | Inr v \<Rightarrow> if sz \<noteq> 0 \<and> sz < length v then Inl (- ERANGE) else Inr v)"

text \<open>
  Modelled from the spec: \<^verbatim>\<open>ovl_vfs_getxattr\<close> (overlayfs.h, not among the sources)
  hands its arguments to the attribute store's get(name).
\<close>

definition ovl_vfs_getxattr :: "dentry \<Rightarrow> string \<Rightarrow> nat \<Rightarrow> int + string" where
  "ovl_vfs_getxattr d name sz = vfs_getxattr d name sz"

text \<open>
  Modelled from the spec: \<^verbatim>\<open>vfs_setxattr\<close> and \<^verbatim>\<open>vfs_removexattr\<close> (fs/xattr.c, not
  among the sources) with the flags \<^verbatim>\<open>XATTR_CREATE\<close> and \<^verbatim>\<open>XATTR_REPLACE\<close>, the
  attribute store's set(name, value, flags) and remove(name): the object refuses with its
  errno and stays as it is; creating an attribute that is there and replacing or removing
  one that is not fail; otherwise the bytes are stored under the name, or the name is
  removed.
\<close>

definition XATTR_CREATE :: u32 where "XATTR_CREATE = 1"
definition XATTR_REPLACE :: u32 where "XATTR_REPLACE = 2"

definition vfs_setxattr :: "dentry \<Rightarrow> string \<Rightarrow> string \<Rightarrow> u32 \<Rightarrow> int \<times> dentry" where
  "vfs_setxattr d name v flags =
     (let err = d_setxattr_err d name
      in if err \<noteq> 0 then (err, d)
         else if flags AND XATTR_CREATE \<noteq> 0 \<and> \<not> isl (d_xattr d name) then (- EEXIST, d)
         else if flags AND XATTR_REPLACE \<noteq> 0 \<and> isl (d_xattr d name) then (- ENODATA, d)
         else (0, d\<lparr>d_xattr := (d_xattr d)(name := Inr v)\<rparr>))"

definition vfs_removexattr :: "dentry \<Rightarrow> string \<Rightarrow> int \<times> dentry" where
  "vfs_removexattr d name =
     (let err = d_setxattr_err d name
      in if err \<noteq> 0 then (err, d)
         else if isl (d_xattr d name) then (- ENODATA, d)
         else (0, d\<lparr>d_xattr := (d_xattr d)(name := Inl (- ENODATA))\<rparr>))"

text \<open>
  Modelled from the spec: \<^verbatim>\<open>ovl_do_setxattr\<close> (overlayfs.h, not among the sources)
  hands its arguments to the attribute store's set(name, value, flags).
\<close>

definition ovl_do_setxattr :: "dentry \<Rightarrow> string \<Rightarrow> string \<Rightarrow> u32 \<Rightarrow> int \<times> dentry" where
  "ovl_do_setxattr d name v flags = vfs_setxattr d name v flags"

text \<open>
  \<^verbatim>\<open>ovl_set_nlink_common\<close>, with \<^verbatim>\<open>ovl_set_nlink_upper\<close> and \<^verbatim>\<open>ovl_set_nlink_lower\<close>:
  \<open>None\<close> is the NULL dereference of a dentry with no upper dentry (or, for the lower
  variant, no lower one). The subtraction is the one of two \<^verbatim>\<open>unsigned int\<close>, read as an
  \<^verbatim>\<open>int\<close>. The format is given by its selector letter.
\<close>

definition ovl_set_nlink_common ::
  "ovl_dentry \<Rightarrow> dentry \<Rightarrow> char \<Rightarrow> (int \<times> ovl_dentry) option" where
  "ovl_set_nlink_common dentry realdentry format =
     (let inode = od_inode dentry;
          realinode = d_inode realdentry;
          buf = snprintf_nlink format (sint (i_nlink inode - i_nlink realinode));
          len = length buf
      in if 13 \<le> len then Some (- EIO, dentry)
         else (case ovl_dentry_upper dentry of
                 None \<Rightarrow> None
               | Some upper \<Rightarrow>
                   (case ovl_do_setxattr upper OVL_XATTR_NLINK buf 0 of
                      (err, upper') \<Rightarrow>
                        Some (err, dentry\<lparr>od_inode := inode\<lparr>ovl_upperdentry := Some upper'\<rparr>\<rparr>))))"

definition ovl_set_nlink_upper :: "ovl_dentry \<Rightarrow> (int \<times> ovl_dentry) option" where
  "ovl_set_nlink_upper dentry =
     (case ovl_dentry_upper dentry of
        None \<Rightarrow> None
      | Some upper \<Rightarrow> ovl_set_nlink_common dentry upper (CHR ''U''))"

definition ovl_set_nlink_lower :: "ovl_dentry \<Rightarrow> (int \<times> ovl_dentry) option" where
  "ovl_set_nlink_lower dentry =
     (case ovl_dentry_lower dentry of
        None \<Rightarrow> None
      | Some lower \<Rightarrow> ovl_set_nlink_common dentry lower (CHR ''L''))"

text \<open>
  Modelled from the spec: \<^verbatim>\<open>kstrtoint\<close> with base 10 (lib/kstrtox.c, not among the
  sources) parses the signed decimal integer of the delta record: an optional sign, at
  least one decimal digit, an optional single newline and then the end of the string;
  \<^verbatim>\<open>-EINVAL\<close> for anything else and \<^verbatim>\<open>-ERANGE\<close> for a number that is no \<^verbatim>\<open>int\<close>.
  \<open>parse_integer\<close> counts the digits consumed and accumulates their number.
\<close>

definition digit_val :: "char \<Rightarrow> int option" where
  "digit_val c =
     (let v = (of_char c :: int)
      in if 48 \<le> v \<and> v \<le> 57 then Some (v - 48) else None)"

fun parse_integer :: "string \<Rightarrow> nat \<Rightarrow> int \<Rightarrow> nat \<times> int" where
  "parse_integer [] rv res = (rv, res)"
| "parse_integer (c # s) rv res =
     (case digit_val c of
        None \<Rightarrow> (rv, res)
      | Some v \<Rightarrow> parse_integer s (rv + 1) (res * 10 + v))"

definition kstrtoull_nosign :: "string \<Rightarrow> int + int" where
  "kstrtoull_nosign s =
     (case parse_integer s 0 0 of
        (rv, res) \<Rightarrow>
          if 2 ^ 64 \<le> res then Inl (- ERANGE)
          else if rv = 0 then Inl (- EINVAL)
          else (let s1 = drop rv s;
                    s2 = (case s1 of [] \<Rightarrow> [] | c # t \<Rightarrow> if c = CHR 0x0A then t else s1)
                in if s2 \<noteq> [] then Inl (- EINVAL) else Inr res))"

definition kstrtoull :: "string \<Rightarrow> int + int" where
  "kstrtoull s =
     (case s of
        [] \<Rightarrow> kstrtoull_nosign s
      | c # t \<Rightarrow> if c = CHR ''+'' then kstrtoull_nosign t else kstrtoull_nosign s)"

definition kstrtoll :: "string \<Rightarrow> int + int" where
  "kstrtoll s =
     (case s of
        [] \<Rightarrow> kstrtoull s
      | c # t \<Rightarrow>
          if c = CHR ''-'' then
            (case kstrtoull_nosign t of
               Inl rv \<Rightarrow> Inl rv
             | Inr tmp \<Rightarrow> if 2 ^ 63 < tmp then Inl (- ERANGE) else Inr (- tmp))
          else
            (case kstrtoull s of
               Inl rv \<Rightarrow> Inl rv
             | Inr tmp \<Rightarrow> if 2 ^ 63 \<le> tmp then Inl (- ERANGE) else Inr tmp))"

definition kstrtoint :: "string \<Rightarrow> int + int" where
  "kstrtoint s =
     (case kstrtoll s of
        Inl rv \<Rightarrow> Inl rv
      | Inr tmp \<Rightarrow>
          if tmp < - (2 ^ 31) \<or> 2 ^ 31 \<le> tmp then Inl (- ERANGE) else Inr tmp)"

text \<open>
  \<^verbatim>\<open>ovl_get_nlink\<close>. The buffer holds the bytes read and a NUL after them, so the two
  characters tested and the string parsed end at the first NUL. \<^verbatim>\<open>nlink\<close> is an
  \<^verbatim>\<open>int\<close>: the addition wraps (the kernel is built with \<^verbatim>\<open>-fno-strict-overflow\<close>) and the
  test is the signed one.
\<close>

definition ovl_get_nlink :: "dentry option \<Rightarrow> dentry option \<Rightarrow> u32 \<Rightarrow> u32" where
  "ovl_get_nlink lowerdentry upperdentry fallback =
     (case lowerdentry of
        None \<Rightarrow> fallback
      | Some lower \<Rightarrow>
     (case upperdentry of
        None \<Rightarrow> fallback
      | Some upper \<Rightarrow>
          if i_nlink (d_inode lower) = 1 then fallback
          else
            (case ovl_vfs_getxattr upper OVL_XATTR_NLINK 12 of
               Inl err \<Rightarrow> fallback
             | Inr v \<Rightarrow>
                 (let buf = c_string v;
                      buf0 = (case buf of [] \<Rightarrow> NUL | c # _ \<Rightarrow> c);
                      buf1 = (case drop 1 buf of [] \<Rightarrow> NUL | c # _ \<Rightarrow> c)
                  in if (buf0 \<noteq> CHR ''L'' \<and> buf0 \<noteq> CHR ''U'') \<or>
                        (buf1 \<noteq> CHR ''+'' \<and> buf1 \<noteq> CHR ''-'') then fallback
                     else
                       (case kstrtoint (drop 1 buf) of
                          Inl err \<Rightarrow> fallback
                        | Inr nlink_diff \<Rightarrow>
                            (let nlink =
                                   i_nlink (d_inode (if buf0 = CHR ''L'' then lower else upper))
                                   + word_of_int nlink_diff
                             in if sint nlink \<le> 0 then fallback else nlink))))))"

subsection \<open>The node identity resolver\<close>

definition ovl_inode_test :: "ovl_inode \<Rightarrow> nat \<Rightarrow> bool" where
  "ovl_inode_test inode data = (i_private inode = Some data)"

definition ovl_inode_set :: "ovl_inode \<Rightarrow> nat \<Rightarrow> ovl_inode" where
  "ovl_inode_set inode data = inode\<lparr>i_private := Some data\<rparr>"

text \<open>
  \<^verbatim>\<open>ovl_verify_inode\<close>: the underlying files stored in the inode match those of the
  lookup. Inode pointers are compared, that is, their addresses.
\<close>

definition ovl_verify_inode :: "ovl_inode \<Rightarrow> dentry option \<Rightarrow> dentry option \<Rightarrow> bool" where
  "ovl_verify_inode inode lowerdentry upperdentry =
     (if S_ISDIR (i_mode inode) \<and> lowerdentry = None \<and> ovl_inode_lower inode \<noteq> None
        then False
      else if S_ISDIR (i_mode inode) \<and> upperdentry = None \<and> ovl_inode_upper inode \<noteq> None
        then False
      else if lowerdentry \<noteq> None \<and>
              map_option i_addr (ovl_inode_lower inode) \<noteq> map_option (i_addr \<circ> d_inode) lowerdentry
        then False
      else if upperdentry \<noteq> None \<and>
              map_option i_addr (ovl_inode_upper inode) \<noteq> map_option (i_addr \<circ> d_inode) upperdentry
        then False
      else True)"

text \<open>
  Modelled from the spec: \<^verbatim>\<open>iget5_locked\<close> (fs/inode.c, not among the sources), the
  test-and-construct lookup of the inode cache: the hashed inode that passes the test for
  the key, or else a freshly allocated one, set up for the key and marked \<open>I_NEW\<close>, or
  \<^verbatim>\<open>NULL\<close> when nothing can be allocated. \<open>icache\<close> is the list of hashed inodes of the
  mount and \<open>fresh\<close> what the allocator hands out (\<open>None\<close>: out of memory).
\<close>

definition iget5_locked :: "ovl_inode list \<Rightarrow> ovl_inode option \<Rightarrow> nat \<Rightarrow> ovl_inode option" where
  "iget5_locked icache fresh key =
     (case find (\<lambda>i. ovl_inode_test i key) icache of
        Some inode \<Rightarrow> Some inode
      | None \<Rightarrow> map_option (\<lambda>i. (ovl_inode_set i key)\<lparr>I_NEW := True\<rparr>) fresh)"

text \<open>
  Modelled from the spec: \<^verbatim>\<open>init_special_inode\<close> (fs/inode.c, not among the sources)
  sets the mode and the operations of a special file, and records the device number of a
  character or block device only: a FIFO or a socket keeps the device number it has.
\<close>

definition init_special_inode :: "ovl_inode \<Rightarrow> u16 \<Rightarrow> u32 \<Rightarrow> ovl_inode" where
  "init_special_inode inode mode rdev =
     (let inode = inode\<lparr>i_mode := mode\<rparr>
      in if mode AND S_IFMT = S_IFCHR \<or> mode AND S_IFMT = S_IFBLK
         then inode\<lparr>i_rdev := rdev\<rparr>
         else inode)"

text \<open>
  \<^verbatim>\<open>ovl_fill_inode\<close>: the inode number is the next one of \<^verbatim>\<open>get_next_ino\<close>, and an
  inode that is no regular file, directory or symbolic link goes through
  \<^verbatim>\<open>init_special_inode\<close>. The inode flags, the ACL cache, the lock class and the
  operation tables are not modelled.
\<close>

definition ovl_fill_inode :: "ovl_inode \<Rightarrow> u16 \<Rightarrow> u32 \<Rightarrow> u64 \<Rightarrow> ovl_inode" where
  "ovl_fill_inode inode mode rdev next_ino =
     (let inode = inode\<lparr>i_ino := next_ino, i_mode := mode\<rparr>
      in if mode AND S_IFMT = S_IFREG \<or> mode AND S_IFMT = S_IFDIR \<or> mode AND S_IFMT = S_IFLNK
         then inode
         else init_special_inode inode mode rdev)"

text \<open>
  Modelled from the spec: \<^verbatim>\<open>ovl_copyattr\<close> (overlayfs.h, not among the sources)
  refreshes the cached metadata of the overlay inode from an underlying inode: owner,
  group, mode and the three times.
\<close>

definition ovl_copyattr :: "inode \<Rightarrow> ovl_inode \<Rightarrow> ovl_inode" where
  "ovl_copyattr from to =
     to\<lparr>i_uid := i_uid from, i_gid := i_gid from, i_mode := i_mode from,
        i_atime := i_atime from, i_mtime := i_mtime from, i_ctime := i_ctime from\<rparr>"

text \<open>
  Modelled from the spec: \<^verbatim>\<open>ovl_inode_init\<close> (util.c, not among the sources) stores the
  upper dentry and the lower inode that are given and populates the metadata from the
  representative object, the writable one if present, else the read-only one. \<open>None\<close>
  is the NULL dereference when neither is given.
\<close>

definition ovl_inode_init ::
  "ovl_inode \<Rightarrow> dentry option \<Rightarrow> dentry option \<Rightarrow> ovl_inode option" where
  "ovl_inode_init inode upperdentry lowerdentry =
     (let inode = (case upperdentry of
                     None \<Rightarrow> inode
                   | Some u \<Rightarrow> inode\<lparr>ovl_upperdentry := Some u\<rparr>);
          inode = (case lowerdentry of
                     None \<Rightarrow> inode
                   | Some l \<Rightarrow> inode\<lparr>ovl_lower := Some (d_inode l)\<rparr>)
      in (case (if upperdentry \<noteq> None then upperdentry else lowerdentry) of
            None \<Rightarrow> None
          | Some r \<Rightarrow> Some (ovl_copyattr (d_inode r) inode)))"

text \<open>
  Modelled from the spec: \<^verbatim>\<open>ovl_is_impuredir\<close> (util.c, not among the sources): the
  writable directory carries the impurity marker, the attribute
  \<^verbatim>\<open>trusted.overlay.impure\<close> with the value y.
\<close>

definition ovl_is_impuredir :: "dentry \<Rightarrow> bool" where
  "ovl_is_impuredir d =
     (d_is_dir d \<and> vfs_getxattr d (OVL_XATTR_PREFIX @ ''impure'') 1 = Inr ''y'')"

text \<open>
  Modelled from the spec: \<^verbatim>\<open>set_nlink\<close> (fs/inode.c, not among the sources) assigns the
  hard-link count of the node.
\<close>

definition set_nlink :: "ovl_inode \<Rightarrow> u32 \<Rightarrow> ovl_inode" where
  "set_nlink inode nlink = inode\<lparr>i_nlink := nlink\<rparr>"

text \<open>
  The tail of \<^verbatim>\<open>ovl_get_inode\<close> that a new inode runs through: fill, init, the impure
  flag, and \<^verbatim>\<open>unlock_new_inode\<close>, which clears \<open>I_NEW\<close>.
\<close>

definition ovl_get_inode_new ::
  "ovl_inode \<Rightarrow> inode \<Rightarrow> u64 \<Rightarrow> dentry option \<Rightarrow> dentry option \<Rightarrow> ovl_inode option" where
  "ovl_get_inode_new inode realinode next_ino upperdentry lowerdentry =
     (case ovl_inode_init (ovl_fill_inode inode (i_mode realinode) (i_rdev realinode) next_ino)
             upperdentry lowerdentry of
        None \<Rightarrow> None
      | Some inode \<Rightarrow>
          (let inode = (case upperdentry of
                          None \<Rightarrow> inode
                        | Some u \<Rightarrow>
                            if ovl_is_impuredir u
                            then inode\<lparr>ovl_flags := insert OVL_IMPURE (ovl_flags inode)\<rparr>
                            else inode)
           in Some (inode\<lparr>I_NEW := False\<rparr>)))"

text \<open>
  \<^verbatim>\<open>ovl_get_inode\<close>. It takes the inode cache of the mount, what the allocator hands
  out and the next inode number, and returns the inode or the \<^verbatim>\<open>ERR_PTR\<close> together with
  the cache; \<open>None\<close> is the NULL dereference of a lookup with neither a lower nor an
  upper dentry.
\<close>

definition ovl_get_inode ::
  "ovl_inode list \<Rightarrow> ovl_inode option \<Rightarrow> u64 \<Rightarrow> ovl_dentry \<Rightarrow> dentry option \<Rightarrow>
   dentry option \<Rightarrow> ((int + ovl_inode) \<times> ovl_inode list) option" where
  "ovl_get_inode icache fresh next_ino dentry upperdentry index =
     (let sb = d_sb dentry;
          lowerdentry = ovl_dentry_lower dentry;
          bylower = ovl_hash_bylower sb upperdentry lowerdentry index
      in (case (if upperdentry \<noteq> None then upperdentry else lowerdentry) of
            None \<Rightarrow> None
          | Some realdentry \<Rightarrow>
              (let realinode = d_inode realdentry;
                   is_dir = S_ISDIR (i_mode realinode)
               in if upperdentry \<noteq> None \<or> bylower then
                    (case (if bylower then lowerdentry else upperdentry) of
                       None \<Rightarrow> None
                     | Some keydentry \<Rightarrow>
                         (let key = i_addr (d_inode keydentry);
                              nlink = (if is_dir then 1 else i_nlink realinode)
                          in (case iget5_locked icache fresh key of
                                None \<Rightarrow> Some (Inl (- ENOMEM), icache)
                              | Some inode \<Rightarrow>
                                  if \<not> I_NEW inode then
                                    (if \<not> ovl_verify_inode inode lowerdentry upperdentry
                                     then Some (Inl (- ESTALE), icache)
                                     else Some (Inr inode, icache))
                                  else
                                    (let nlink = (if \<not> is_dir
                                                  then ovl_get_nlink lowerdentry upperdentry nlink
                                                  else nlink)
                                     in (case ovl_get_inode_new (set_nlink inode nlink) realinode
                                                next_ino upperdentry lowerdentry of
                                           None \<Rightarrow> None
                                         | Some inode \<Rightarrow> Some (Inr inode, inode # icache))))))
                  else
                    (case fresh of
                       None \<Rightarrow> Some (Inl (- ENOMEM), icache)
                     | Some inode \<Rightarrow>
                         (case ovl_get_inode_new inode realinode next_ino upperdentry
                                 lowerdentry of
                            None \<Rightarrow> None
                          | Some inode \<Rightarrow> Some (Inr inode, icache))))))"

subsection \<open>Get attributes\<close>

text \<open>
  \<^verbatim>\<open>struct kstat\<close>, with the fields this file writes and the mode, and
  \<^verbatim>\<open>struct path\<close>.
\<close>

record kstat =
  dev :: u32
  ino :: u64
  nlink :: u32
  mode :: u16

record path =
  p_mnt :: "nat option"
  p_dentry :: "dentry option"

text \<open>
  Modelled from the spec: whether a node has a tracked origin and whether it is merged, as
  the bits of \<^verbatim>\<open>enum ovl_path_type\<close> with the macros \<^verbatim>\<open>OVL_TYPE_MERGE\<close> and
  \<^verbatim>\<open>OVL_TYPE_ORIGIN\<close>, and the \<^verbatim>\<open>statx\<close> mask bits (overlayfs.h and
  \<^verbatim>\<open>include/uapi/linux/stat.h\<close>, not among the sources).
\<close>

definition OVL_PATH_UPPER :: u32 where "OVL_PATH_UPPER = 1"
definition OVL_PATH_MERGE :: u32 where "OVL_PATH_MERGE = 2"
definition OVL_PATH_ORIGIN :: u32 where "OVL_PATH_ORIGIN = 4"

definition OVL_TYPE_MERGE :: "u32 \<Rightarrow> bool" where
  "OVL_TYPE_MERGE t = (t AND OVL_PATH_MERGE \<noteq> 0)"

definition OVL_TYPE_ORIGIN :: "u32 \<Rightarrow> bool" where
  "OVL_TYPE_ORIGIN t = (t AND OVL_PATH_ORIGIN \<noteq> 0)"

definition STATX_NLINK :: u32 where "STATX_NLINK = 0x4"
definition STATX_INO :: u32 where "STATX_INO = 0x100"

text \<open>
  What the path helpers of util.c (not among the sources) answer for a dentry:
  \<^verbatim>\<open>ovl_path_lowerdata\<close>, \<^verbatim>\<open>ovl_path_real\<close> with the type it returns, and
  \<^verbatim>\<open>ovl_path_lower\<close>.
\<close>

record ovl_paths =
  path_lowerdata :: path
  path_real :: path
  path_type :: u32
  path_lower :: path

text \<open>
  The end of \<^verbatim>\<open>ovl_getattr\<close>, which every path that has projected the device and
  the inode number runs through: link count 1 for a merged directory, the link count of
  the overlay inode for an indexed inode that is no directory.
\<close>

definition ovl_getattr_nlink :: "ovl_dentry \<Rightarrow> u32 \<Rightarrow> kstat \<Rightarrow> int \<times> kstat" where
  "ovl_getattr_nlink dentry type stat =
     (let is_dir = S_ISDIR (i_mode (od_inode dentry));
          stat = (if is_dir \<and> OVL_TYPE_MERGE type then stat\<lparr>nlink := 1\<rparr> else stat);
          stat = (if \<not> is_dir \<and> ovl_test_flag OVL_INDEX (od_inode dentry)
                  then stat\<lparr>nlink := i_nlink (od_inode dentry)\<rparr> else stat)
      in (0, stat))"

text \<open>
  \<^verbatim>\<open>ovl_getattr\<close>. \<open>CONFIG_KSU_SUSFS_SUS_OVERLAYFS\<close> is the build option of that
  name. \<open>vfs_getattr\<close> is the underlying filesystem: for a path, a request mask and
  the query flags it answers with an error or 0 and with the attributes; it is called
  with the credentials of the mounter. The attributes returned with an error are the
  ones the call left behind.
\<close>

definition ovl_getattr ::
  "bool \<Rightarrow> (path \<Rightarrow> u32 \<Rightarrow> u32 \<Rightarrow> int \<times> kstat) \<Rightarrow> ovl_paths \<Rightarrow> ovl_dentry \<Rightarrow> u32 \<Rightarrow> u32 \<Rightarrow>
   int \<times> kstat" where
  "ovl_getattr CONFIG_KSU_SUSFS_SUS_OVERLAYFS vfs_getattr paths dentry request_mask flags =
     (let is_dir = S_ISDIR (i_mode (od_inode dentry));
          realpath = path_lowerdata paths
      in if CONFIG_KSU_SUSFS_SUS_OVERLAYFS \<and> p_mnt realpath \<noteq> None \<and> p_dentry realpath \<noteq> None
         then vfs_getattr realpath request_mask flags
         else
           (let type = path_type paths;
                realpath = path_real paths
            in (case vfs_getattr realpath request_mask flags of
                  (err, stat) \<Rightarrow>
                    if err \<noteq> 0 then (err, stat)
                    else if same_sb (d_sb dentry) then
                      (if OVL_TYPE_ORIGIN type then
                         (let lowermask = STATX_INO OR (if \<not> is_dir then STATX_NLINK else 0)
                          in (case vfs_getattr (path_lower paths) lowermask flags of
                                (err, lowerstat) \<Rightarrow>
                                  if err \<noteq> 0 then (err, stat)
                                  else
                                    (let stat =
                                           (if is_dir \<or> nlink lowerstat = 1 \<or>
                                               ovl_test_flag OVL_INDEX (od_inode dentry)
                                            then stat\<lparr>ino := ino lowerstat\<rparr> else stat)
                                     in ovl_getattr_nlink dentry type
                                          (stat\<lparr>dev := s_dev (d_sb dentry)\<rparr>))))
                       else ovl_getattr_nlink dentry type (stat\<lparr>dev := s_dev (d_sb dentry)\<rparr>))
                    else if is_dir then
                      ovl_getattr_nlink dentry type
                        (stat\<lparr>dev := s_dev (d_sb dentry), ino := i_ino (od_inode dentry)\<rparr>)
                    else ovl_getattr_nlink dentry type stat)))"

subsection \<open>External collaborators\<close>

text \<open>
  The credentials an operation runs with: those of the calling task, or those of the
  mounter while \<^verbatim>\<open>ovl_override_creds\<close> is in force.
\<close>

datatype cred = Caller | Mounter

text \<open>
  Modelled from the spec: \<^verbatim>\<open>struct iattr\<close> and the bits of \<^verbatim>\<open>ia_valid\<close> this file
  tests, for a change of the mode and for the clearing of the set-uid and set-gid bits
  (\<^verbatim>\<open>include/linux/fs.h\<close>, not among the sources).
\<close>

record iattr =
  ia_valid :: u32
  ia_mode :: u16
  ia_uid :: u32
  ia_gid :: u32
  ia_size :: u64

definition ATTR_MODE :: u32 where "ATTR_MODE = 0x1"
definition ATTR_KILL_SUID :: u32 where "ATTR_KILL_SUID = 0x800"
definition ATTR_KILL_SGID :: u32 where "ATTR_KILL_SGID = 0x1000"

text \<open>
  Modelled from the spec: the write, read and append bits of a permission mask
  (\<^verbatim>\<open>include/linux/fs.h\<close>, not among the sources).
\<close>

definition MAY_WRITE :: u32 where "MAY_WRITE = 0x2"
definition MAY_READ :: u32 where "MAY_READ = 0x4"
definition MAY_APPEND :: u32 where "MAY_APPEND = 0x8"

text \<open>
  The functions of the kernel and of the promotion engine that this file calls and whose
  code is not among the sources, as parameters:
  \<^item> \<open>setattr_prepare\<close>, the standard precondition check of a change of attributes;
  \<^item> \<open>mnt_want_write\<close>, what the upper mount answers a request for write intent with
    (0, or a negated errno);
  \<^item> \<open>ovl_copy_up\<close>, the promotion of a dentry: an error or 0, and the dentry after it;
  \<^item> \<open>notify_change\<close>, the change of the attributes of an underlying object, with the
    credentials in force: an error or 0, and the object after it;
  \<^item> \<open>generic_permission\<close> and \<open>inode_permission\<close>, the permission checks on the
    overlay inode and on an underlying inode, with the credentials in force;
  \<^item> \<open>vfs_listxattr\<close>, the attribute store's list() into a buffer of the given size,
    with the credentials in force: what the call returns and the buffer after it;
  \<^item> \<open>ns_capable_noaudit\<close>, whether the caller has \<^verbatim>\<open>CAP_SYS_ADMIN\<close> in the initial
    user namespace.
\<close>

record ovl_ops =
  setattr_prepare :: "ovl_dentry \<Rightarrow> iattr \<Rightarrow> int"
  mnt_want_write :: int
  ovl_copy_up :: "ovl_dentry \<Rightarrow> int \<times> ovl_dentry"
  notify_change :: "cred \<Rightarrow> dentry \<Rightarrow> iattr \<Rightarrow> int \<times> dentry"
  generic_permission :: "cred \<Rightarrow> ovl_inode \<Rightarrow> u32 \<Rightarrow> int"
  inode_permission :: "cred \<Rightarrow> inode \<Rightarrow> u32 \<Rightarrow> int"
  vfs_listxattr :: "cred \<Rightarrow> dentry \<Rightarrow> nat \<Rightarrow> int \<times> string"
  ns_capable_noaudit :: bool

text \<open>
  Modelled from the spec: \<^verbatim>\<open>ovl_want_write\<close> and \<^verbatim>\<open>ovl_drop_write\<close> (util.c, not among
  the sources), the reference-counted gate of write intent on the mount: a refusal leaves
  the count of writers as it is, an acquisition adds one and a release takes one away.
\<close>

definition ovl_want_write :: "ovl_ops \<Rightarrow> nat \<Rightarrow> int \<times> nat" where
  "ovl_want_write ops writers =
     (if mnt_want_write ops \<noteq> 0 then (mnt_want_write ops, writers) else (0, writers + 1))"

definition ovl_drop_write :: "nat \<Rightarrow> nat" where
  "ovl_drop_write writers = writers - 1"

subsection \<open>Set attributes\<close>

text \<open>
  \<^verbatim>\<open>ovl_setattr\<close>. It takes the dentry, the writers of the mount and the attributes
  asked for, and returns the error with all three as the call leaves them; \<open>None\<close> is
  the NULL dereference after a promotion that reports success and leaves no upper dentry.
\<close>

definition ovl_setattr ::
  "ovl_ops \<Rightarrow> ovl_dentry \<Rightarrow> nat \<Rightarrow> iattr \<Rightarrow> (int \<times> ovl_dentry \<times> nat \<times> iattr) option" where
  "ovl_setattr ops dentry writers attr =
     (let err = setattr_prepare ops dentry attr
      in if err \<noteq> 0 then Some (err, dentry, writers, attr)
         else
           (case ovl_want_write ops writers of
              (err, writers) \<Rightarrow>
                if err \<noteq> 0 then Some (err, dentry, writers, attr)
                else
                  (case ovl_copy_up ops dentry of
                     (err, dentry) \<Rightarrow>
                       if err = 0 then
                         (case ovl_dentry_upper dentry of
                            None \<Rightarrow> None
                          | Some upperdentry \<Rightarrow>
                              (let attr =
                                     (if ia_valid attr AND (ATTR_KILL_SUID OR ATTR_KILL_SGID) \<noteq> 0
                                      then attr\<lparr>ia_valid := ia_valid attr AND NOT ATTR_MODE\<rparr>
                                      else attr)
                               in (case notify_change ops Mounter upperdentry attr of
                                     (err, upperdentry) \<Rightarrow>
                                       (let inode = (od_inode dentry)
                                                      \<lparr>ovl_upperdentry := Some upperdentry\<rparr>;
                                            inode = (if err = 0
                                                     then ovl_copyattr (d_inode upperdentry) inode
                                                     else inode)
                                        in Some (err, dentry\<lparr>od_inode := inode\<rparr>,
                                                 ovl_drop_write writers, attr)))))
                       else Some (err, dentry, ovl_drop_write writers, attr))))"

subsection \<open>Permission\<close>

text \<open>
  \<^verbatim>\<open>ovl_permission\<close>: the overlay inode is checked with the credentials of the task,
  the underlying inode with those of the mounter. \<open>msk\<close> is the \<^verbatim>\<open>mask\<close> of the
  source.
\<close>

definition ovl_permission :: "ovl_ops \<Rightarrow> ovl_inode \<Rightarrow> u32 \<Rightarrow> int" where
  "ovl_permission ops inode msk =
     (let upperinode = ovl_inode_upper inode
      in (case (if upperinode \<noteq> None then upperinode else ovl_inode_lower inode) of
            None \<Rightarrow> - ECHILD
          | Some realinode \<Rightarrow>
              (let err = generic_permission ops Caller inode msk
               in if err \<noteq> 0 then err
                  else
                    (let msk =
                           (if upperinode = None \<and> \<not> special_file (i_mode realinode) \<and>
                               msk AND MAY_WRITE \<noteq> 0
                            then (msk AND NOT (MAY_WRITE OR MAY_APPEND)) OR MAY_READ
                            else msk)
                     in inode_permission ops Mounter realinode msk))))"

subsection \<open>Extended attributes\<close>

definition ovl_is_private_xattr :: "string \<Rightarrow> bool" where
  "ovl_is_private_xattr name = (take (length OVL_XATTR_PREFIX) name = OVL_XATTR_PREFIX)"

text \<open>
  \<^verbatim>\<open>ovl_xattr_set\<close>. The value is \<open>None\<close> for the \<^verbatim>\<open>NULL\<close> of a removal. It takes
  the dentry and the writers of the mount and returns the error with both as the call
  leaves them; \<open>None\<close> is the NULL dereference of a dentry with no underlying object,
  or after a promotion that reports success and leaves no upper dentry.
  \<open>ovl_xattr_set_upper\<close> is the function from the promotion on, which it reaches with
  the write intent held.
\<close>

definition ovl_xattr_set_upper ::
  "ovl_ops \<Rightarrow> ovl_dentry \<Rightarrow> nat \<Rightarrow> string \<Rightarrow> string option \<Rightarrow> u32 \<Rightarrow>
   (int \<times> ovl_dentry \<times> nat) option" where
  "ovl_xattr_set_upper ops dentry writers name val flags =
     (let upperdentry = ovl_upperdentry (od_inode dentry)
      in (case (if upperdentry = None then ovl_copy_up ops dentry else (0, dentry)) of
            (err, dentry) \<Rightarrow>
              if err \<noteq> 0 then Some (err, dentry, ovl_drop_write writers)
              else
                (case (if upperdentry = None then ovl_dentry_upper dentry else upperdentry) of
                   None \<Rightarrow> None
                 | Some realdentry \<Rightarrow>
                     (case (case val of
                              Some v \<Rightarrow> vfs_setxattr realdentry name v flags
                            | None \<Rightarrow> vfs_removexattr realdentry name) of
                        (err, realdentry) \<Rightarrow>
                          Some (err,
                                dentry\<lparr>od_inode := (od_inode dentry)
                                         \<lparr>ovl_upperdentry := Some realdentry\<rparr>\<rparr>,
                                ovl_drop_write writers)))))"

definition ovl_xattr_set ::
  "ovl_ops \<Rightarrow> ovl_dentry \<Rightarrow> nat \<Rightarrow> string \<Rightarrow> string option \<Rightarrow> u32 \<Rightarrow>
   (int \<times> ovl_dentry \<times> nat) option" where
  "ovl_xattr_set ops dentry writers name val flags =
     (let upperdentry = ovl_upperdentry (od_inode dentry);
          realdentry = (if upperdentry \<noteq> None then upperdentry else ovl_dentry_lower dentry)
      in (case ovl_want_write ops writers of
            (err, writers) \<Rightarrow>
              if err \<noteq> 0 then Some (err, dentry, writers)
              else if val = None \<and> upperdentry = None then
                (case realdentry of
                   None \<Rightarrow> None
                 | Some r \<Rightarrow>
                     (case vfs_getxattr r name 0 of
                        Inl err \<Rightarrow> Some (err, dentry, ovl_drop_write writers)
                      | Inr _ \<Rightarrow> ovl_xattr_set_upper ops dentry writers name val flags))
              else ovl_xattr_set_upper ops dentry writers name val flags))"

text \<open>
  Modelled from the spec: the prefix of the privileged namespace
  (\<^verbatim>\<open>XATTR_TRUSTED_PREFIX\<close> of \<^verbatim>\<open>include/uapi/linux/xattr.h\<close>, not among the sources).
\<close>

definition XATTR_TRUSTED_PREFIX :: string where
  "XATTR_TRUSTED_PREFIX = ''trusted.''"

text \<open>
  \<^verbatim>\<open>ovl_can_list\<close>, on the C string that \<open>s\<close> points to. \<^verbatim>\<open>strncmp\<close> against a prefix
  over the length of the prefix is 0 when the string starts with the prefix.
  \<open>capable\<close> is what \<^verbatim>\<open>ns_capable_noaudit\<close> answers for \<^verbatim>\<open>CAP_SYS_ADMIN\<close>.
\<close>

definition ovl_can_list :: "bool \<Rightarrow> string \<Rightarrow> bool" where
  "ovl_can_list capable s =
     (if take (length XATTR_TRUSTED_PREFIX) s \<noteq> XATTR_TRUSTED_PREFIX then True
      else \<not> ovl_is_private_xattr s \<and> capable)"

text \<open>
  Modelled from the spec: \<^verbatim>\<open>strnlen\<close> and \<^verbatim>\<open>memmove\<close> (lib/string.c, not among the
  sources) on a buffer given as the list of its bytes: the length of the string within
  \<open>maxlen\<close> bytes, and the move of \<open>n\<close> bytes between two offsets of the buffer.
\<close>

definition strnlen :: "string \<Rightarrow> nat \<Rightarrow> nat" where
  "strnlen s maxlen = length (takeWhile (\<lambda>c. c \<noteq> NUL) (take maxlen s))"

definition memmove :: "string \<Rightarrow> nat \<Rightarrow> nat \<Rightarrow> nat \<Rightarrow> string" where
  "memmove buf dst src n = take dst buf @ take n (drop src buf) @ drop (dst + n) buf"

text \<open>
  The loop of \<^verbatim>\<open>ovl_listxattr\<close> that filters out the private attributes: \<open>s\<close> is the
  offset of the pointer of that name into the buffer \<open>list\<close>, \<open>len\<close> the bytes still
  to look at and \<open>res\<close> the length to return. It ends with \<^verbatim>\<open>-EIO\<close> on a name
  that is not terminated.
\<close>

function ovl_listxattr_filter :: "bool \<Rightarrow> string \<Rightarrow> nat \<Rightarrow> nat \<Rightarrow> int \<Rightarrow> int \<times> string" where
  "ovl_listxattr_filter capable list s len res =
     (if len = 0 then (res, list)
      else
        (let slen = strnlen (drop s list) len + 1
         in if len < slen then (- EIO, list)
            else if \<not> ovl_can_list capable (c_string (drop s list)) then
              ovl_listxattr_filter capable (memmove list s (s + slen) (len - slen)) s
                (len - slen) (res - int slen)
            else ovl_listxattr_filter capable list (s + slen) (len - slen) res))"
  by pat_completeness auto
termination
  by (relation "measure (\<lambda>(capable, list, s, len, res). len)") auto

declare ovl_listxattr_filter.simps [simp del]

text \<open>
  \<^verbatim>\<open>ovl_listxattr\<close>, for a buffer of \<open>sz\<close> bytes: what the call returns and the buffer
  after it. \<open>None\<close> is the NULL dereference of a dentry with no underlying object.
\<close>

definition ovl_listxattr :: "ovl_ops \<Rightarrow> ovl_dentry \<Rightarrow> nat \<Rightarrow> (int \<times> string) option" where
  "ovl_listxattr ops dentry sz =
     (case ovl_dentry_real dentry of
        None \<Rightarrow> None
      | Some realdentry \<Rightarrow>
          (case vfs_listxattr ops Mounter realdentry sz of
             (res, list) \<Rightarrow>
               if res \<le> 0 \<or> sz = 0 then Some (res, list)
               else Some (ovl_listxattr_filter (ns_capable_noaudit ops) list 0 (nat res) res)))"

subsection \<open>The documented behaviour, in the words of the specification\<close>

text \<open>
  The precedence of the cache key policy as the specification lists it: no read-only
  origin; an index object; no writable layer; a hard link with count above 1 on a
  read-only object that is no directory, no index area, and a writable object or no index
  area configured; stable-handle export with a writable object; otherwise by lower.
  The index area is the reserved directory of the writable layer, \<open>indexdir\<close>.
\<close>

definition should_hash_by_lower ::
  "super_block \<Rightarrow> dentry option \<Rightarrow> dentry option \<Rightarrow> dentry option \<Rightarrow> bool" where
  "should_hash_by_lower sb upper lower index =
     (if lower = None then False
      else if index \<noteq> None then True
      else if upper_mnt sb = None then True
      else if 1 < unat (i_nlink (d_inode (the lower))) \<and> \<not> d_is_dir (the lower) \<and>
              indexdir sb = None \<and> (upper \<noteq> None \<or> indexdir sb = None) then False
      else if s_export_op sb \<noteq> None \<and> upper \<noteq> None then False
      else True)"

text \<open>
  The same precedence with the fourth rule asking for no index object of the node (which
  the second rule has already settled) in place of no index area.
\<close>

definition should_hash_by_lower_amended ::
  "super_block \<Rightarrow> dentry option \<Rightarrow> dentry option \<Rightarrow> dentry option \<Rightarrow> bool" where
  "should_hash_by_lower_amended sb upper lower index =
     (if lower = None then False
      else if index \<noteq> None then True
      else if upper_mnt sb = None then True
      else if 1 < unat (i_nlink (d_inode (the lower))) \<and> \<not> d_is_dir (the lower) \<and>
              index = None \<and> (upper \<noteq> None \<or> indexdir sb = None) then False
      else if s_export_op sb \<noteq> None \<and> upper \<noteq> None then False
      else True)"

text \<open>
  The delta record as the specification documents it: ASCII, at most 12 bytes, a selector
  letter U or L, a sign + or -, and one or more decimal digits. Its delta is the signed
  decimal number, and it selects the lower object as base when the letter is L.
\<close>

definition decimal_digit :: "char \<Rightarrow> bool" where
  "decimal_digit c = (c \<in> set ''0123456789'')"

definition digit_value :: "char \<Rightarrow> int" where
  "digit_value c = int (length (takeWhile (\<lambda>d. d \<noteq> c) ''0123456789''))"

definition decimal_value :: "string \<Rightarrow> int" where
  "decimal_value ds = foldl (\<lambda>a c. 10 * a + digit_value c) 0 ds"

definition documented_record :: "string \<Rightarrow> bool" where
  "documented_record r =
     (case r of
        sel # sg # ds \<Rightarrow>
          (sel = CHR ''U'' \<or> sel = CHR ''L'') \<and> (sg = CHR ''+'' \<or> sg = CHR ''-'') \<and>
          ds \<noteq> [] \<and> list_all decimal_digit ds
      | _ \<Rightarrow> False)"

definition record_delta :: "string \<Rightarrow> int" where
  "record_delta r =
     (case r of
        sel # sg # ds \<Rightarrow> if sg = CHR ''-'' then - decimal_value ds else decimal_value ds
      | _ \<Rightarrow> 0)"

definition record_selects_lower :: "string \<Rightarrow> bool" where
  "record_selects_lower r = (take 1 r = ''L'')"

text \<open>
  What the decoder takes for the record: a read of at most 12 bytes from the writable
  object (\<open>None\<close> for a read failure), of which it looks at the bytes before the first
  NUL, less one newline at their end. The record is malformed when the read fails, when
  that text is not of the documented form, when its delta is no 32-bit \<^verbatim>\<open>int\<close>, or when
  the resulting count, as a 32-bit \<^verbatim>\<open>int\<close>, is not positive.
\<close>

definition stored_record :: "dentry \<Rightarrow> string option" where
  "stored_record upper =
     (case d_xattr upper ''trusted.overlay.nlink'' of
        Inl _ \<Rightarrow> None
      | Inr v \<Rightarrow> if 12 < length v then None else Some v)"

primrec before_nul :: "string \<Rightarrow> string" where
  "before_nul [] = []"
| "before_nul (c # cs) = (if c = CHR 0x00 then [] else c # before_nul cs)"

definition record_text :: "string \<Rightarrow> string" where
  "record_text v =
     (let t = before_nul v
      in if t \<noteq> [] \<and> last t = CHR 0x0A then butlast t else t)"

definition nlink_selected_base :: "dentry \<Rightarrow> dentry \<Rightarrow> u32" where
  "nlink_selected_base lower upper =
     (case stored_record upper of
        None \<Rightarrow> i_nlink (d_inode upper)
      | Some v \<Rightarrow>
          if record_selects_lower (record_text v) then i_nlink (d_inode lower)
          else i_nlink (d_inode upper))"

definition nlink_delta :: "dentry \<Rightarrow> int" where
  "nlink_delta upper =
     (case stored_record upper of
        None \<Rightarrow> 0
      | Some v \<Rightarrow> record_delta (record_text v))"

definition nlink_record_malformed :: "dentry \<Rightarrow> dentry \<Rightarrow> bool" where
  "nlink_record_malformed lower upper =
     (case stored_record upper of
        None \<Rightarrow> True
      | Some v \<Rightarrow>
          \<not> documented_record (record_text v) \<or>
          nlink_delta upper < - (2 ^ 31) \<or> 2 ^ 31 \<le> nlink_delta upper \<or>
          sint (nlink_selected_base lower upper + word_of_int (nlink_delta upper)) \<le> 0)"

text \<open>
  When the specification has the verification of a cached node fail: a supplied read-only
  object differs from the stored origin reference, a supplied writable object differs from
  the stored upper reference, or, for a directory, the node holds a lower (or an upper)
  reference while the lookup supplies none.
\<close>

definition verification_fails :: "ovl_inode \<Rightarrow> dentry option \<Rightarrow> dentry option \<Rightarrow> bool" where
  "verification_fails inode lowerdentry upperdentry =
     ((case lowerdentry of
         None \<Rightarrow> False
       | Some l \<Rightarrow> map_option i_addr (ovl_inode_lower inode) \<noteq> Some (i_addr (d_inode l))) \<or>
      (case upperdentry of
         None \<Rightarrow> False
       | Some u \<Rightarrow> map_option i_addr (ovl_inode_upper inode) \<noteq> Some (i_addr (d_inode u))) \<or>
      (S_ISDIR (i_mode inode) \<and>
       ((ovl_inode_lower inode \<noteq> None \<and> lowerdentry = None) \<or>
        (ovl_inode_upper inode \<noteq> None \<and> upperdentry = None))))"

text \<open>
  The read-only origin of a node as get-attributes sees it: the attributes the underlying
  filesystem reports for the lower path, asked for the inode number and, for a node that
  is no directory, the link count. The lower data path resolves when it has both a mount
  and an object.
\<close>

definition origin_stat ::
  "(path \<Rightarrow> u32 \<Rightarrow> u32 \<Rightarrow> int \<times> kstat) \<Rightarrow> ovl_paths \<Rightarrow> ovl_dentry \<Rightarrow> u32 \<Rightarrow> kstat" where
  "origin_stat vfs_getattr paths dentry flags =
     snd (vfs_getattr (path_lower paths)
            (STATX_INO OR (if \<not> S_ISDIR (i_mode (od_inode dentry)) then STATX_NLINK else 0))
            flags)"

definition lowerdata_resolves :: "ovl_paths \<Rightarrow> bool" where
  "lowerdata_resolves paths =
     (p_mnt (path_lowerdata paths) \<noteq> None \<and> p_dentry (path_lowerdata paths) \<noteq> None)"

text \<open>
  A node has a tracked read-only origin when it is promoted and carries the origin bit, or
  when it is not promoted, its real object being the read-only object itself. The inode
  number of the origin is the one the underlying filesystem reports for the lower path:
  to get-attributes itself for a promoted node, to the caller's query for a node that is
  not promoted.
\<close>

definition tracked_origin :: "ovl_paths \<Rightarrow> bool" where
  "tracked_origin paths = (OVL_TYPE_ORIGIN (path_type paths) \<or> path_real paths = path_lower paths)"

definition origin_ino ::
  "(path \<Rightarrow> u32 \<Rightarrow> u32 \<Rightarrow> int \<times> kstat) \<Rightarrow> ovl_paths \<Rightarrow> ovl_dentry \<Rightarrow> u32 \<Rightarrow> u32 \<Rightarrow> u64" where
  "origin_ino vfs_getattr paths dentry request_mask flags =
     (if OVL_TYPE_ORIGIN (path_type paths) then ino (origin_stat vfs_getattr paths dentry flags)
      else ino (snd (vfs_getattr (path_lower paths) request_mask flags)))"

text \<open>
  The cached metadata of a logical node is fresh with respect to an underlying inode when
  owner, group, mode and the three times are those of that inode.
\<close>

definition metadata_refreshed :: "ovl_inode \<Rightarrow> inode \<Rightarrow> bool" where
  "metadata_refreshed inode real =
     (i_uid inode = i_uid real \<and> i_gid inode = i_gid real \<and> i_mode inode = i_mode real \<and>
      i_atime inode = i_atime real \<and> i_mtime inode = i_mtime real \<and>
      i_ctime inode = i_ctime real)"

text \<open>
  The mask that the specification has delegated for a write request on a node with no
  writable object: write and append removed, read added, every other bit as requested.
\<close>

definition downgraded_mask :: "u32 \<Rightarrow> u32 \<Rightarrow> bool" where
  "downgraded_mask requested delegated =
     (delegated AND MAY_WRITE = 0 \<and> delegated AND MAY_APPEND = 0 \<and>
      delegated AND MAY_READ = MAY_READ \<and>
      delegated AND NOT (MAY_WRITE OR MAY_APPEND OR MAY_READ) =
        requested AND NOT (MAY_WRITE OR MAY_APPEND OR MAY_READ))"

text \<open>
  An attribute list is the names one after the other, each followed by a NUL. The names of
  a list are read back by cutting it at the NULs. An attribute is internal when its name
  starts with the reserved overlay prefix, and privileged when it starts with the trusted
  prefix; the specification lists an attribute when it is not internal and, if it is
  privileged, the caller has the administrative capability.
\<close>

definition xattr_list :: "string list \<Rightarrow> string" where
  "xattr_list names = concat (map (\<lambda>n. n @ [NUL]) names)"

primrec split_nul :: "string \<Rightarrow> string \<Rightarrow> string list" where
  "split_nul [] acc = (if acc = [] then [] else [rev acc])"
| "split_nul (c # cs) acc =
     (if c = NUL then rev acc # split_nul cs [] else split_nul cs (c # acc))"

definition xattr_names :: "string \<Rightarrow> string list" where
  "xattr_names buf = split_nul buf []"

definition internal_xattr :: "string \<Rightarrow> bool" where
  "internal_xattr n = (take 16 n = ''trusted.overlay.'')"

definition privileged_xattr :: "string \<Rightarrow> bool" where
  "privileged_xattr n = (take 8 n = ''trusted.'')"

definition listed_xattr :: "bool \<Rightarrow> string \<Rightarrow> bool" where
  "listed_xattr admin n = (\<not> internal_xattr n \<and> (privileged_xattr n \<longrightarrow> admin))"

subsection \<open>Sample objects\<close>

text \<open>A regular file, a directory and a mount, for the concrete instances below.\<close>

definition sample_inode :: "nat \<Rightarrow> u16 \<Rightarrow> u32 \<Rightarrow> inode" where
  "sample_inode a m n =
     \<lparr>i_addr = a, i_mode = m, i_nlink = n, i_ino = of_nat a, i_rdev = 0,
      i_uid = 0, i_gid = 0, i_atime = 0, i_mtime = 0, i_ctime = 0\<rparr>"

definition sample_dentry :: "inode \<Rightarrow> dentry" where
  "sample_dentry i = \<lparr>d_inode = i, d_xattr = (\<lambda>_. Inl (- ENODATA)), d_setxattr_err = (\<lambda>_. 0)\<rparr>"

definition sample_sb :: super_block where
  "sample_sb = \<lparr>s_dev = 42, s_export_op = None, upper_mnt = Some 1, indexdir = Some 2,
                 same_sb = True\<rparr>"

definition sample_ovl_inode :: "u16 \<Rightarrow> u32 \<Rightarrow> dentry option \<Rightarrow> inode option \<Rightarrow> ovl_inode" where
  "sample_ovl_inode m n upper lower =
     \<lparr>i_addr = 100, i_mode = m, i_nlink = n, i_ino = 7, i_rdev = 0,
      i_uid = 0, i_gid = 0, i_atime = 0, i_mtime = 0, i_ctime = 0,
      ovl_upperdentry = upper, ovl_lower = lower, ovl_flags = {}, i_private = None,
      I_NEW = False\<rparr>"

definition sample_ovl_dentry :: "ovl_inode \<Rightarrow> dentry list \<Rightarrow> ovl_dentry" where
  "sample_ovl_dentry i ls = \<lparr>od_inode = i, od_lowerstack = ls, d_sb = sample_sb\<rparr>"

definition sample_upper :: "u32 \<Rightarrow> dentry" where
  "sample_upper n = sample_dentry (sample_inode 10 S_IFREG n)"

definition sample_lower :: "u32 \<Rightarrow> dentry" where
  "sample_lower n = sample_dentry (sample_inode 20 S_IFREG n)"

text \<open>
  An upper object that carries a delta record, and a promoted regular file with the link
  counts of the overlay inode, of its upper object and of its lower object.
\<close>

definition sample_upper_record :: "u32 \<Rightarrow> string \<Rightarrow> dentry" where
  "sample_upper_record n r =
     (sample_upper n)\<lparr>d_xattr := (\<lambda>name. if name = OVL_XATTR_NLINK then Inr r else Inl (- ENODATA))\<rparr>"

definition sample_file :: "u32 \<Rightarrow> u32 \<Rightarrow> u32 \<Rightarrow> ovl_dentry" where
  "sample_file n nu nl =
     sample_ovl_dentry
       (sample_ovl_inode S_IFREG n (Some (sample_upper nu)) (Some (d_inode (sample_lower nl))))
       [sample_lower nl]"

text \<open>A promoted regular file whose upper object refuses every change of its attributes.\<close>

definition sample_refusing_file :: "u32 \<Rightarrow> u32 \<Rightarrow> u32 \<Rightarrow> ovl_dentry" where
  "sample_refusing_file n nu nl =
     sample_ovl_dentry
       (sample_ovl_inode S_IFREG n (Some ((sample_upper nu)\<lparr>d_setxattr_err := (\<lambda>_. - EPERM)\<rparr>))
          (Some (d_inode (sample_lower nl))))
       [sample_lower nl]"

text \<open>
  A merged directory in the inode cache, hashed by its upper inode, and a lookup of the
  same upper directory that finds no lower directory any more.
\<close>

definition sample_upper_dir :: dentry where
  "sample_upper_dir = sample_dentry (sample_inode 30 S_IFDIR 2)"

definition sample_lower_dir :: dentry where
  "sample_lower_dir = sample_dentry (sample_inode 40 S_IFDIR 2)"

definition sample_dir_node :: ovl_inode where
  "sample_dir_node =
     (sample_ovl_inode S_IFDIR 1 (Some sample_upper_dir) (Some (d_inode sample_lower_dir)))
       \<lparr>i_private := Some 30\<rparr>"

definition sample_dir_lookup :: ovl_dentry where
  "sample_dir_lookup = sample_ovl_dentry (sample_ovl_inode S_IFDIR 1 None None) []"

text \<open>A promoted regular file in the inode cache, hashed by its upper inode.\<close>

definition sample_file_node :: ovl_inode where
  "sample_file_node =
     (sample_ovl_inode S_IFREG 1 (Some (sample_upper 1)) (Some (d_inode (sample_lower 1))))
       \<lparr>i_private := Some 10\<rparr>"

definition sample_file_lookup :: ovl_dentry where
  "sample_file_lookup = sample_ovl_dentry (sample_ovl_inode S_IFREG 1 None None) []"

text \<open>
  An underlying filesystem with device number 8 that reports the inode of the object, and
  the paths of a promoted regular file with its origin.
\<close>

definition sample_getattr :: "path \<Rightarrow> u32 \<Rightarrow> u32 \<Rightarrow> int \<times> kstat" where
  "sample_getattr p request_mask flags =
     (case p_dentry p of
        None \<Rightarrow> (- EINVAL, \<lparr>dev = 0, ino = 0, nlink = 0, mode = 0\<rparr>)
      | Some d \<Rightarrow>
          (0, \<lparr>dev = 8, ino = i_ino (d_inode d), nlink = i_nlink (d_inode d),
               mode = i_mode (d_inode d)\<rparr>))"

definition sample_paths :: ovl_paths where
  "sample_paths =
     \<lparr>path_lowerdata = \<lparr>p_mnt = Some 2, p_dentry = Some (sample_lower 1)\<rparr>,
      path_real = \<lparr>p_mnt = Some 1, p_dentry = Some (sample_upper 1)\<rparr>,
      path_type = OVL_PATH_UPPER OR OVL_PATH_ORIGIN,
      path_lower = \<lparr>p_mnt = Some 2, p_dentry = Some (sample_lower 1)\<rparr>\<rparr>"

definition sample_paths_unresolved :: ovl_paths where
  "sample_paths_unresolved =
     \<lparr>path_lowerdata = \<lparr>p_mnt = None, p_dentry = None\<rparr>,
      path_real = \<lparr>p_mnt = Some 1, p_dentry = Some (sample_upper 1)\<rparr>,
      path_type = OVL_PATH_UPPER OR OVL_PATH_ORIGIN,
      path_lower = \<lparr>p_mnt = Some 2, p_dentry = Some (sample_lower 1)\<rparr>\<rparr>"

text \<open>The paths of the same regular file before its promotion: the real object is the lower one.\<close>

definition sample_paths_unpromoted :: ovl_paths where
  "sample_paths_unpromoted =
     \<lparr>path_lowerdata = \<lparr>p_mnt = Some 2, p_dentry = Some (sample_lower 1)\<rparr>,
      path_real = \<lparr>p_mnt = Some 2, p_dentry = Some (sample_lower 1)\<rparr>,
      path_type = 0,
      path_lower = \<lparr>p_mnt = Some 2, p_dentry = Some (sample_lower 1)\<rparr>\<rparr>"

definition sample_dir_paths :: ovl_paths where
  "sample_dir_paths =
     \<lparr>path_lowerdata = \<lparr>p_mnt = Some 2, p_dentry = Some sample_lower_dir\<rparr>,
      path_real = \<lparr>p_mnt = Some 1, p_dentry = Some sample_upper_dir\<rparr>,
      path_type = OVL_PATH_UPPER OR OVL_PATH_MERGE OR OVL_PATH_ORIGIN,
      path_lower = \<lparr>p_mnt = Some 2, p_dentry = Some sample_lower_dir\<rparr>\<rparr>"

definition sample_dir :: ovl_dentry where
  "sample_dir = sample_ovl_dentry sample_dir_node [sample_lower_dir]"

text \<open>
  A regular file with a lower object only, a promotion that gives a dentry without an
  upper object the sample one, and collaborators that let everything pass: the change of
  attributes sets the mode asked for, and the underlying inode refuses write access.
\<close>

definition sample_lower_file :: ovl_dentry where
  "sample_lower_file =
     sample_ovl_dentry (sample_ovl_inode S_IFREG 1 None (Some (d_inode (sample_lower 1))))
       [sample_lower 1]"

definition sample_copy_up :: "ovl_dentry \<Rightarrow> int \<times> ovl_dentry" where
  "sample_copy_up d =
     (case ovl_dentry_upper d of
        Some u \<Rightarrow> (0, d)
      | None \<Rightarrow> (0, d\<lparr>od_inode := (od_inode d)\<lparr>ovl_upperdentry := Some (sample_upper 1)\<rparr>\<rparr>))"

definition sample_ops :: ovl_ops where
  "sample_ops =
     \<lparr>setattr_prepare = (\<lambda>d a. 0),
      mnt_want_write = 0,
      ovl_copy_up = sample_copy_up,
      notify_change = (\<lambda>c d a. (0, d\<lparr>d_inode := (d_inode d)\<lparr>i_mode := ia_mode a\<rparr>\<rparr>)),
      generic_permission = (\<lambda>c i m. 0),
      inode_permission = (\<lambda>c i m. if m AND MAY_WRITE \<noteq> 0 then - EACCES else 0),
      vfs_listxattr = (\<lambda>c d n. (0, [])),
      ns_capable_noaudit = False\<rparr>"

definition sample_attr :: iattr where
  "sample_attr = \<lparr>ia_valid = ATTR_MODE, ia_mode = 0x81A4, ia_uid = 0, ia_gid = 0, ia_size = 0\<rparr>"

text \<open>
  An object with a user attribute, an internal attribute and a privileged one, listed by
  the underlying filesystem into a buffer that is large enough.
\<close>

definition sample_names :: "string list" where
  "sample_names = [''user.a'', ''trusted.overlay.origin'', ''trusted.b'']"

definition sample_list_ops :: "bool \<Rightarrow> ovl_ops" where
  "sample_list_ops admin =
     sample_ops\<lparr>vfs_listxattr :=
                  (\<lambda>c d n. (int (length (xattr_list sample_names)), xattr_list sample_names @ [])),
                ns_capable_noaudit := admin\<rparr>"

section \<open>Properties\<close>

subsection \<open>Printing and parsing the delta\<close>

lemma digit_cases:
  assumes "0 \<le> n" "n < (10::int)"
  obtains "n = 0" | "n = 1" | "n = 2" | "n = 3" | "n = 4" | "n = 5" | "n = 6" | "n = 7" | "n = 8" | "n = 9"
  using assms by atomize_elim arith

lemma digit_val_digit_char: "0 \<le> n \<Longrightarrow> n < 10 \<Longrightarrow> digit_val (digit_char n) = Some n"
  by (erule (1) digit_cases) (simp_all add: digit_val_def digit_char_def)

lemma digit_char_not_NUL: "0 \<le> n \<Longrightarrow> n < 10 \<Longrightarrow> digit_char n \<noteq> NUL"
  by (erule (1) digit_cases) (simp_all add: NUL_def digit_char_def)

lemma parse_integer_dec:
  "0 \<le> n \<Longrightarrow> parse_integer (dec n @ s) rv res =
     parse_integer s (rv + length (dec n)) (res * 10 ^ length (dec n) + n)"
proof (induction n arbitrary: rv res s rule: dec.induct)
  case (1 n)
  show ?case
  proof (cases "n < 10")
    case True
    then show ?thesis using "1.prems"
      by (simp add: dec.simps [of n] digit_val_digit_char)
  next
    case False
    have d: "digit_val (digit_char (n mod 10)) = Some (n mod 10)"
      by (simp add: digit_val_digit_char)
    have n: "0 \<le> n div 10" using "1.prems" by simp
    have "parse_integer (dec n @ s) rv res =
          parse_integer (dec (n div 10) @ (digit_char (n mod 10) # s)) rv res"
      using False by (simp add: dec.simps [of n])
    also have "\<dots> = parse_integer (digit_char (n mod 10) # s)
          (rv + length (dec (n div 10))) (res * 10 ^ length (dec (n div 10)) + n div 10)"
      using False n by (rule "1.IH")
    also have "\<dots> = parse_integer s (rv + length (dec n)) (res * 10 ^ length (dec n) + n)"
      using False by (simp add: d dec.simps [of n] algebra_simps)
    finally show ?thesis .
  qed
qed

lemma dec_no_NUL: "0 \<le> n \<Longrightarrow> NUL \<notin> set (dec n)"
proof (induction n rule: dec.induct)
  case (1 n)
  show ?case
  proof (cases "n < 10")
    case True
    then show ?thesis using digit_char_not_NUL [of n] "1.prems" by (auto simp add: dec.simps [of n])
  next
    case False
    then show ?thesis using "1.IH" "1.prems" digit_char_not_NUL [of "n mod 10"]
      by (auto simp add: dec.simps [of n])
  qed
qed

lemma length_dec: "0 < k \<Longrightarrow> n < 10 ^ k \<Longrightarrow> length (dec n) \<le> k"
proof (induction n arbitrary: k rule: dec.induct)
  case (1 n)
  show ?case
  proof (cases "n < 10")
    case True
    then show ?thesis using "1.prems" by (simp add: dec.simps [of n])
  next
    case False
    with "1.prems" have k: "1 < k" by (cases k) (auto simp: less_Suc_eq)
    then obtain j where j: "k = Suc j" "0 < j" by (cases k) auto
    have "n < 10 * 10 ^ j" using "1.prems" j by simp
    then have "n div 10 < 10 ^ j" by linarith
    then have "length (dec (n div 10)) \<le> j" using "1.IH" False j by simp
    then show ?thesis using False j by (simp add: dec.simps [of n])
  qed
qed

lemma dec_nonempty: "dec n \<noteq> []"
  by (simp add: dec.simps [of n])

lemma kstrtoull_nosign_dec:
  "0 \<le> n \<Longrightarrow> n < 2 ^ 64 \<Longrightarrow> kstrtoull_nosign (dec n) = Inr n"
  using parse_integer_dec [of n "[]" 0 0] dec_nonempty [of n]
  by (simp add: kstrtoull_nosign_def)

lemma kstrtoint_snprintf:
  assumes "- (2 ^ 31) \<le> i" "i < 2 ^ 31"
  shows "kstrtoint (drop 1 (snprintf_nlink sel i)) = Inr i"
proof (cases "0 \<le> i")
  case True
  then have "kstrtoull_nosign (dec \<bar>i\<bar>) = Inr i"
    using assms kstrtoull_nosign_dec [of i] by simp
  then show ?thesis using True assms
    by (simp add: snprintf_nlink_def kstrtoint_def kstrtoll_def kstrtoull_def)
next
  case False
  then have "kstrtoull_nosign (dec \<bar>i\<bar>) = Inr (- i)"
    using assms kstrtoull_nosign_dec [of "- i"] by simp
  then show ?thesis using False assms
    by (simp add: snprintf_nlink_def kstrtoint_def kstrtoll_def kstrtoull_def)
qed

text \<open>A delta that is parsed is an \<^verbatim>\<open>int\<close>.\<close>

lemma kstrtoint_range: "kstrtoint s = Inr d \<Longrightarrow> - (2 ^ 31) \<le> d \<and> d < 2 ^ 31"
  by (auto simp: kstrtoint_def split: sum.splits if_splits)

lemma length_snprintf_nlink:
  assumes "- (2 ^ 31) \<le> i" "i < 2 ^ 31"
  shows "length (snprintf_nlink sel i) \<le> 12"
proof -
  have "\<bar>i\<bar> < 10 ^ 10" using assms by simp
  then have "length (dec \<bar>i\<bar>) \<le> 10" by (rule length_dec [rotated]) simp
  then show ?thesis by (simp add: snprintf_nlink_def)
qed

lemma c_string_snprintf_nlink:
  "sel \<noteq> NUL \<Longrightarrow> c_string (snprintf_nlink sel i) = snprintf_nlink sel i"
  using dec_no_NUL [of "\<bar>i\<bar>"]
  by (auto simp: c_string_def snprintf_nlink_def NUL_def takeWhile_eq_all_conv)

subsection \<open>The cache key policy\<close>

text \<open>
  Claim C1, as amended. \<^verbatim>\<open>ovl_hash_bylower\<close> follows the documented precedence: false with no
  read-only origin; else true with an index object; else true when the mount has no
  writable layer; else false when the read-only object is no directory, has a link count
  above 1, the node has no index object, and a writable object exists or no index area is
  configured; else false when the mount supports export and a writable object exists;
  else true.
\<close>

theorem hash_bylower_precedence:
  "ovl_hash_bylower sb upper lower index = should_hash_by_lower_amended sb upper lower index"
  by (cases lower) (auto simp: ovl_hash_bylower_def should_hash_by_lower_amended_def)

theorem hash_bylower_precedence_witness:
  "ovl_hash_bylower sample_sb (Some (sample_dentry (sample_inode 10 S_IFREG 1)))
     (Some (sample_dentry (sample_inode 20 S_IFREG 2))) None = False \<and>
   should_hash_by_lower_amended sample_sb (Some (sample_dentry (sample_inode 10 S_IFREG 1)))
     (Some (sample_dentry (sample_inode 20 S_IFREG 2))) None = False"
  using hash_bylower_precedence [of sample_sb "Some (sample_dentry (sample_inode 10 S_IFREG 1))"
     "Some (sample_dentry (sample_inode 20 S_IFREG 2))" None]
  by (simp add: should_hash_by_lower_amended_def sample_sb_def sample_dentry_def sample_inode_def
      d_is_dir_def S_ISDIR_def S_IFREG_def S_IFMT_def S_IFDIR_def)

text \<open>
  The fourth rule as the specification words it also asks that there be no index area. On a
  mount with an index directory, a promoted regular file whose lower object has two links
  and no index object is hashed by its upper object, where the rule as worded would not
  apply and the precedence would end in hashing by lower.
\<close>

theorem hash_bylower_index_area_counterexample:
  "ovl_hash_bylower sample_sb (Some (sample_dentry (sample_inode 10 S_IFREG 1)))
     (Some (sample_dentry (sample_inode 20 S_IFREG 2))) None = False \<and>
   should_hash_by_lower sample_sb (Some (sample_dentry (sample_inode 10 S_IFREG 1)))
     (Some (sample_dentry (sample_inode 20 S_IFREG 2))) None = True"
  by (simp add: ovl_hash_bylower_def should_hash_by_lower_def sample_sb_def sample_dentry_def
      sample_inode_def d_is_dir_def S_ISDIR_def S_IFREG_def S_IFMT_def S_IFDIR_def)

subsection \<open>The link count codec\<close>

lemma sint_range32: "- (2 ^ 31) \<le> sint (w :: u32) \<and> sint w < 2 ^ 31"
  using sint_ge [of w] sint_lt [of w] by simp

lemma get_nlink_record:
  assumes "i_nlink (d_inode lower) \<noteq> 1"
    and "vfs_getxattr upper OVL_XATTR_NLINK 12 = Inr v"
    and "c_string v = sel # sg # rest"
    and "sel = CHR ''U'' \<or> sel = CHR ''L''"
    and "sg = CHR ''+'' \<or> sg = CHR ''-''"
    and "kstrtoint (sg # rest) = Inr d"
    and "0 < sint (i_nlink (d_inode (if sel = CHR ''L'' then lower else upper)) + word_of_int d)"
  shows "ovl_get_nlink (Some lower) (Some upper) fallback =
           i_nlink (d_inode (if sel = CHR ''L'' then lower else upper)) + word_of_int d"
  using assms by (auto simp: ovl_get_nlink_def ovl_vfs_getxattr_def Let_def)

lemma get_nlink_after_store:
  assumes l: "i_nlink (d_inode lower) \<noteq> 1"
    and sel: "sel = CHR ''U'' \<or> sel = CHR ''L''"
    and x: "d_xattr upper OVL_XATTR_NLINK =
              Inr (snprintf_nlink sel
                (sint (n - i_nlink (d_inode (if sel = CHR ''L'' then lower else upper)))))"
    and n: "0 < sint n"
  shows "ovl_get_nlink (Some lower) (Some upper) fallback = n"
proof -
  define b where "b = i_nlink (d_inode (if sel = CHR ''L'' then lower else upper))"
  define i where "i = sint (n - b)"
  define r where "r = snprintf_nlink sel i"
  define sg where "sg = (if 0 \<le> i then CHR ''+'' else CHR ''-'')"
  have rg: "- (2 ^ 31) \<le> i" "i < 2 ^ 31" using sint_range32 [of "n - b"] by (simp_all add: i_def)
  have len: "length r \<le> 12" unfolding r_def using rg by (rule length_snprintf_nlink)
  have g: "vfs_getxattr upper OVL_XATTR_NLINK 12 = Inr r"
    using x len by (simp add: vfs_getxattr_def r_def i_def b_def)
  have h: "r = sel # sg # dec \<bar>i\<bar>"
    by (simp add: snprintf_nlink_def r_def sg_def)
  have c: "c_string r = sel # sg # dec \<bar>i\<bar>"
    using sel c_string_snprintf_nlink [of sel i] h by (auto simp: NUL_def r_def)
  have k: "kstrtoint (sg # dec \<bar>i\<bar>) = Inr i"
    using kstrtoint_snprintf [OF rg, of sel] by (simp add: snprintf_nlink_def sg_def)
  have e: "b + word_of_int i = n" by (simp add: i_def)
  have sg: "sg = CHR ''+'' \<or> sg = CHR ''-''" by (simp add: sg_def)
  have p: "0 < sint (i_nlink (d_inode (if sel = CHR ''L'' then lower else upper)) + word_of_int i)"
    using n e by (simp add: b_def)
  show ?thesis
    using get_nlink_record [OF l g c sel sg k p, of fallback] e by (simp add: b_def)
qed

text \<open>
  The count is computed as a 32-bit \<^verbatim>\<open>int\<close>. Where the sum of the base count and the
  delta is positive and fits, it is that sum.
\<close>

lemma nlink_sum_exact:
  assumes "0 < uint b + d" "uint b + d < 2 ^ 31"
  shows "sint (b + word_of_int d :: u32) = uint b + d"
proof -
  have "b + word_of_int d = (word_of_int (uint b + d) :: u32)" by simp
  then have "sint (b + word_of_int d) = signed_take_bit 31 (uint b + d)"
    by (simp only: sint_sbintrunc') simp
  also have "\<dots> = uint b + d"
    using assms by (intro signed_take_bit_int_eq_self) simp_all
  finally show ?thesis .
qed

subsection \<open>The documented record format and the parser\<close>

lemma decimal_digit_cases:
  assumes "decimal_digit c"
  obtains "c = CHR ''0''" | "c = CHR ''1''" | "c = CHR ''2''" | "c = CHR ''3''" | "c = CHR ''4''"
    | "c = CHR ''5''" | "c = CHR ''6''" | "c = CHR ''7''" | "c = CHR ''8''" | "c = CHR ''9''"
  using assms by (auto simp: decimal_digit_def)

lemma of_char_digit:
  assumes "48 \<le> (of_char c :: int)" "(of_char c :: int) \<le> 57"
  shows "decimal_digit c"
proof -
  have v: "(of_char CHR ''0'' :: int) = 48" "(of_char CHR ''1'' :: int) = 49"
    "(of_char CHR ''2'' :: int) = 50" "(of_char CHR ''3'' :: int) = 51"
    "(of_char CHR ''4'' :: int) = 52" "(of_char CHR ''5'' :: int) = 53"
    "(of_char CHR ''6'' :: int) = 54" "(of_char CHR ''7'' :: int) = 55"
    "(of_char CHR ''8'' :: int) = 56" "(of_char CHR ''9'' :: int) = 57"
    by simp_all
  have "(of_char c :: int) = 48 \<or> (of_char c :: int) = 49 \<or> (of_char c :: int) = 50 \<or>
        (of_char c :: int) = 51 \<or> (of_char c :: int) = 52 \<or> (of_char c :: int) = 53 \<or>
        (of_char c :: int) = 54 \<or> (of_char c :: int) = 55 \<or> (of_char c :: int) = 56 \<or>
        (of_char c :: int) = 57"
    using assms by arith
  then have "(of_char c :: int) = of_char CHR ''0'' \<or> (of_char c :: int) = of_char CHR ''1'' \<or>
        (of_char c :: int) = of_char CHR ''2'' \<or> (of_char c :: int) = of_char CHR ''3'' \<or>
        (of_char c :: int) = of_char CHR ''4'' \<or> (of_char c :: int) = of_char CHR ''5'' \<or>
        (of_char c :: int) = of_char CHR ''6'' \<or> (of_char c :: int) = of_char CHR ''7'' \<or>
        (of_char c :: int) = of_char CHR ''8'' \<or> (of_char c :: int) = of_char CHR ''9''"
    by (simp only: v)
  then show ?thesis by (simp only: of_char_eq_iff decimal_digit_def) simp
qed

lemma digit_val_spec:
  "digit_val c = (if decimal_digit c then Some (digit_value c) else None)"
proof (cases "decimal_digit c")
  case True
  then show ?thesis
    by (rule decimal_digit_cases) (simp_all add: digit_val_def digit_value_def decimal_digit_def)
next
  case False
  then show ?thesis using of_char_digit [of c] by (auto simp: digit_val_def Let_def)
qed


lemma parse_integer_spec:
  "parse_integer s rv res =
     (rv + length (takeWhile decimal_digit s),
      foldl (\<lambda>a c. 10 * a + digit_value c) res (takeWhile decimal_digit s))"
  by (induction s arbitrary: rv res) (simp_all add: digit_val_spec mult.commute)

lemma digit_value_nonneg: "0 \<le> digit_value c"
  by (simp add: digit_value_def)

lemma foldl_digits_nonneg: "0 \<le> a \<Longrightarrow> 0 \<le> foldl (\<lambda>a c. 10 * a + digit_value c) a ds"
  by (induction ds arbitrary: a) (simp_all add: digit_value_nonneg)

lemma decimal_value_nonneg: "0 \<le> decimal_value ds"
  by (simp add: decimal_value_def foldl_digits_nonneg)

lemma newline_no_digit: "\<not> decimal_digit (CHR 0x0A)"
  by (simp add: decimal_digit_def)

lemma kstrtoull_nosign_spec:
  "kstrtoull_nosign s =
     (if 2 ^ 64 \<le> decimal_value (takeWhile decimal_digit s) then Inl (- ERANGE)
      else if takeWhile decimal_digit s = [] then Inl (- EINVAL)
      else if dropWhile decimal_digit s = [] \<or> dropWhile decimal_digit s = [CHR 0x0A]
        then Inr (decimal_value (takeWhile decimal_digit s))
      else Inl (- EINVAL))"
proof -
  define tw where "tw = takeWhile decimal_digit s"
  define dw where "dw = dropWhile decimal_digit s"
  have p: "parse_integer s 0 0 = (length tw, decimal_value tw)"
    by (simp add: parse_integer_spec tw_def decimal_value_def)
  have d: "drop (length tw) s = dw"
    by (simp add: dropWhile_eq_drop tw_def dw_def)
  have "kstrtoull_nosign s =
     (if 2 ^ 64 \<le> decimal_value tw then Inl (- ERANGE)
      else if tw = [] then Inl (- EINVAL)
      else if dw = [] \<or> dw = [CHR 0x0A] then Inr (decimal_value tw)
      else Inl (- EINVAL))"
    by (cases dw) (auto simp: kstrtoull_nosign_def p d Let_def)
  then show ?thesis by (simp only: tw_def dw_def)
qed

text \<open>
  The delta that \<^verbatim>\<open>kstrtoint\<close> reads after a sign: the digits up to the end of the string
  or up to a newline that ends it, when there is at least one and the signed number is an
  \<^verbatim>\<open>int\<close>.
\<close>

lemma kstrtoint_signed:
  assumes "sg = CHR ''+'' \<or> sg = CHR ''-''"
  shows "(case kstrtoint (sg # rest) of Inl e \<Rightarrow> None | Inr d \<Rightarrow> Some d) =
     (let ds = takeWhile decimal_digit rest;
          d = (if sg = CHR ''-'' then - decimal_value ds else decimal_value ds)
      in if ds \<noteq> [] \<and>
            (dropWhile decimal_digit rest = [] \<or> dropWhile decimal_digit rest = [CHR 0x0A]) \<and>
            - (2 ^ 31) \<le> d \<and> d < 2 ^ 31
         then Some d else None)"
  using assms decimal_value_nonneg [of "takeWhile decimal_digit rest"]
  by (auto simp: kstrtoint_def kstrtoll_def kstrtoull_def kstrtoull_nosign_spec Let_def)

lemma c_string_before_nul: "c_string v = before_nul v"
  by (induction v) (simp_all add: c_string_def NUL_def)

lemma read_stored_record:
  "(case ovl_vfs_getxattr upper OVL_XATTR_NLINK 12 of Inl e \<Rightarrow> None | Inr v \<Rightarrow> Some v) =
     stored_record upper"
  by (simp add: ovl_vfs_getxattr_def vfs_getxattr_def stored_record_def OVL_XATTR_NLINK_def
      OVL_XATTR_PREFIX_def split: sum.splits)

lemma digits_then_newline:
  fixes rest :: string
  defines "t \<equiv> (if rest \<noteq> [] \<and> last rest = CHR 0x0A then butlast rest else rest)"
  shows "(takeWhile decimal_digit rest \<noteq> [] \<and>
          (dropWhile decimal_digit rest = [] \<or> dropWhile decimal_digit rest = [CHR 0x0A])) =
         (t \<noteq> [] \<and> list_all decimal_digit t)"
    and "t \<noteq> [] \<and> list_all decimal_digit t \<Longrightarrow> takeWhile decimal_digit rest = t"
proof -
  define tw where "tw = takeWhile decimal_digit rest"
  define dw where "dw = dropWhile decimal_digit rest"
  have r: "rest = tw @ dw" by (simp add: tw_def dw_def)
  have a: "list_all decimal_digit tw"
    unfolding tw_def list_all_iff by (auto dest: set_takeWhileD)
  have h: "dw \<noteq> [] \<Longrightarrow> \<not> decimal_digit (hd dw)"
    unfolding dw_def by (rule hd_dropWhile)
  have c: "(tw \<noteq> [] \<and> (dw = [] \<or> dw = [CHR 0x0A])) = (t \<noteq> [] \<and> list_all decimal_digit t) \<and>
           (t \<noteq> [] \<and> list_all decimal_digit t \<longrightarrow> tw = t)"
  proof (cases dw)
    case Nil
    then have "rest = tw" using r by simp
    moreover have "tw \<noteq> [] \<Longrightarrow> last tw \<noteq> CHR 0x0A"
      using a newline_no_digit by (auto simp: list_all_iff dest: last_in_set)
    ultimately show ?thesis using a Nil by (auto simp: t_def)
  next
    case (Cons x xs)
    then have x: "\<not> decimal_digit x" using h by simp
    show ?thesis
    proof (cases "xs = []")
      case True
      then have "rest = tw @ [x]" using r Cons by simp
      then show ?thesis using a x Cons True by (auto simp: t_def)
    next
      case False
      then have "t = tw @ x # xs \<or> t = tw @ x # butlast xs"
        using r Cons by (auto simp: t_def butlast_append)
      then show ?thesis using x Cons False by auto
    qed
  qed
  show "(takeWhile decimal_digit rest \<noteq> [] \<and>
          (dropWhile decimal_digit rest = [] \<or> dropWhile decimal_digit rest = [CHR 0x0A])) =
         (t \<noteq> [] \<and> list_all decimal_digit t)"
    using c by (simp add: tw_def dw_def)
  show "t \<noteq> [] \<and> list_all decimal_digit t \<Longrightarrow> takeWhile decimal_digit rest = t"
    using c by (simp add: tw_def)
qed


lemma record_text_signed:
  assumes "before_nul v = c # sg # rest" "sg = CHR ''+'' \<or> sg = CHR ''-''"
  shows "record_text v =
     c # sg # (if rest \<noteq> [] \<and> last rest = CHR 0x0A then butlast rest else rest)"
  using assms by (auto simp: record_text_def)

lemma get_nlink_text:
  assumes r: "ovl_vfs_getxattr upper OVL_XATTR_NLINK 12 = Inr v"
    and n: "i_nlink (d_inode lower) \<noteq> 1"
  shows "ovl_get_nlink (Some lower) (Some upper) fallback =
     (let t = record_text v;
          nlink = (if record_selects_lower t then i_nlink (d_inode lower)
                   else i_nlink (d_inode upper)) + word_of_int (record_delta t)
      in if \<not> documented_record t \<or> record_delta t < - (2 ^ 31) \<or> 2 ^ 31 \<le> record_delta t \<or>
            sint nlink \<le> 0 then fallback else nlink)"
proof (cases "before_nul v")
  case Nil
  then have "\<not> documented_record (record_text v)"
    by (simp add: record_text_def documented_record_def)
  then show ?thesis using r n Nil
    by (simp add: ovl_get_nlink_def c_string_before_nul Let_def NUL_def)
next
  case (Cons c b)
  note c = this
  show ?thesis
  proof (cases b)
    case Nil
    then have "\<not> documented_record (record_text v)"
      using c by (simp add: record_text_def documented_record_def Let_def)
    then show ?thesis using r n c Nil
      by (simp add: ovl_get_nlink_def c_string_before_nul Let_def NUL_def)
  next
    case (Cons sg rest)
    then have b: "before_nul v = c # sg # rest" using c by simp
    show ?thesis
    proof (cases "sg = CHR ''+'' \<or> sg = CHR ''-''")
      case False
      then have "\<not> documented_record (record_text v)"
        using b by (cases rest) (auto simp: record_text_def documented_record_def Let_def)
      then show ?thesis using r n b False
        by (simp add: ovl_get_nlink_def c_string_before_nul Let_def)
    next
      case True
      define t where "t = (if rest \<noteq> [] \<and> last rest = CHR 0x0A then butlast rest else rest)"
      have rt: "record_text v = c # sg # t"
        using record_text_signed [OF b True] by (simp add: t_def)
      show ?thesis
      proof (cases "c = CHR ''L'' \<or> c = CHR ''U''")
        case False
        then have "\<not> documented_record (record_text v)"
          by (auto simp: rt documented_record_def)
        then show ?thesis using r n b False
          by (simp add: ovl_get_nlink_def c_string_before_nul Let_def)
      next
        case sel: True
        have d: "documented_record (record_text v) = (t \<noteq> [] \<and> list_all decimal_digit t)"
          using sel True by (auto simp: rt documented_record_def)
        have rd: "record_delta (record_text v) =
            (if sg = CHR ''-'' then - decimal_value t else decimal_value t)"
          by (simp add: rt record_delta_def)
        have sl: "record_selects_lower (record_text v) = (c = CHR ''L'')"
          by (simp add: rt record_selects_lower_def)
        define P where "P = (takeWhile decimal_digit rest \<noteq> [] \<and>
              (dropWhile decimal_digit rest = [] \<or> dropWhile decimal_digit rest = [CHR 0x0A]))"
        define D where "D = (if sg = CHR ''-'' then - decimal_value (takeWhile decimal_digit rest)
                             else decimal_value (takeWhile decimal_digit rest))"
        define K where "K = (case kstrtoint (sg # rest) of Inl e \<Rightarrow> None | Inr d \<Rightarrow> Some d)"
        have k: "K = (if P \<and> - (2 ^ 31) \<le> D \<and> D < 2 ^ 31 then Some D else None)"
          unfolding K_def P_def D_def using kstrtoint_signed [OF True, of rest]
          by (simp only: Let_def conj_assoc)
        have Pt: "P = (t \<noteq> [] \<and> list_all decimal_digit t)"
          unfolding P_def t_def by (rule digits_then_newline(1))
        show ?thesis
        proof (cases "t \<noteq> [] \<and> list_all decimal_digit t")
          case False
          then have "\<not> P" using Pt by blast
          then have "K = None" using k by simp
          then have "isl (kstrtoint (sg # rest))"
            by (auto simp: K_def split: sum.splits)
          then show ?thesis using r n b True sel d False
            by (auto simp: ovl_get_nlink_def c_string_before_nul Let_def NUL_def split: sum.splits)
        next
          case ok: True
          then have tw: "takeWhile decimal_digit rest = t"
            using digits_then_newline(2) [of rest] by (simp add: t_def)
          have rd': "record_delta (record_text v) = D" using rd by (simp add: D_def tw)
          have P using ok Pt by simp
          show ?thesis
          proof (cases "- (2 ^ 31) \<le> D \<and> D < 2 ^ 31")
            case False
            then have "K = None" using k by simp
            then have "isl (kstrtoint (sg # rest))"
              by (auto simp: K_def split: sum.splits)
            moreover have "record_delta (record_text v) < - (2 ^ 31) \<or> 2 ^ 31 \<le> record_delta (record_text v)"
              using False rd' by (simp add: not_le not_less)
            ultimately show ?thesis using r n b True sel
              by (auto simp: ovl_get_nlink_def c_string_before_nul Let_def NUL_def split: sum.splits)
          next
            case rng: True
            then have "K = Some D" using k \<open>P\<close> by simp
            then have ki: "kstrtoint (sg # rest) = Inr D"
              by (auto simp: K_def split: sum.splits)
            show ?thesis using r n b True sel d ok rng
              by (auto simp: ovl_get_nlink_def c_string_before_nul Let_def NUL_def ki rd' sl)
          qed
        qed
      qed
    qed
  qed
qed


lemma get_nlink_both:
  assumes "i_nlink (d_inode lower) \<noteq> 1"
  shows "ovl_get_nlink (Some lower) (Some upper) fallback =
     (if nlink_record_malformed lower upper then fallback
      else nlink_selected_base lower upper + word_of_int (nlink_delta upper))"
proof (cases "ovl_vfs_getxattr upper OVL_XATTR_NLINK 12")
  case (Inl e)
  then have "stored_record upper = None"
    using read_stored_record [of upper] by simp
  then show ?thesis using Inl assms
    by (simp add: ovl_get_nlink_def nlink_record_malformed_def)
next
  case (Inr v)
  then have s: "stored_record upper = Some v"
    using read_stored_record [of upper] by simp
  show ?thesis
    unfolding get_nlink_text [OF Inr assms]
    by (simp add: nlink_record_malformed_def nlink_selected_base_def nlink_delta_def s Let_def)
qed

text \<open>
  Claim C4, as amended. \<^verbatim>\<open>ovl_get_nlink\<close> always returns a link count, never an error: the
  fallback when the read-only object is absent, when the writable object is absent, when
  the read-only object's own link count is 1, or when the stored record is malformed: the
  read fails or the value has more than 12 bytes, or its text (the bytes before the first
  NUL, less one newline at their end) is not a selector letter U or L, a sign + or - and
  one or more decimal digits, or the delta is no 32-bit \<^verbatim>\<open>int\<close>, or the resulting count,
  as a 32-bit \<^verbatim>\<open>int\<close>, is not positive. In every other case it returns the link count of
  the selected base object plus the decimal value of the delta.
\<close>

theorem get_nlink_fallback_or_delta:
  "ovl_get_nlink lowerdentry upperdentry fallback =
     (if lowerdentry = None \<or> upperdentry = None then fallback
      else if i_nlink (d_inode (the lowerdentry)) = 1 then fallback
      else if nlink_record_malformed (the lowerdentry) (the upperdentry) then fallback
      else nlink_selected_base (the lowerdentry) (the upperdentry) +
           word_of_int (nlink_delta (the upperdentry)))"
proof (cases lowerdentry)
  case None
  then show ?thesis by (simp add: ovl_get_nlink_def)
next
  case l: (Some lower)
  show ?thesis
  proof (cases upperdentry)
    case None
    then show ?thesis using l by (simp add: ovl_get_nlink_def)
  next
    case (Some upper)
    show ?thesis
    proof (cases "i_nlink (d_inode lower) = 1")
      case True
      then show ?thesis using l Some by (simp add: ovl_get_nlink_def)
    next
      case False
      then show ?thesis using l Some get_nlink_both [of lower upper fallback] by simp
    qed
  qed
qed

lemma sample_stored_record:
  "length r \<le> 12 \<Longrightarrow> stored_record (sample_upper_record n r) = Some r"
  by (simp add: stored_record_def sample_upper_record_def OVL_XATTR_NLINK_def OVL_XATTR_PREFIX_def)

lemma sample_nlinks:
  "i_nlink (d_inode (sample_lower n)) = n"
  "i_nlink (d_inode (sample_upper n)) = n"
  "i_nlink (d_inode (sample_upper_record n r)) = n"
  by (simp_all add: sample_lower_def sample_upper_record_def sample_upper_def
        sample_dentry_def sample_inode_def)

lemma record_samples:
  "documented_record ''L+3''" "record_delta ''L+3'' = 3" "record_text ''L+3'' = ''L+3''"
  "documented_record ''U-1''" "record_delta ''U-1'' = - 1" "record_text ''U-1'' = ''U-1''"
  "documented_record ''U-4''" "record_delta ''U-4'' = - 4" "record_text ''U-4'' = ''U-4''"
  "\<not> documented_record ''X+3''" "record_text ''X+3'' = ''X+3''"
  "\<not> documented_record ''U 3''" "record_text ''U 3'' = ''U 3''"
  "\<not> documented_record ''U+x''" "record_text ''U+x'' = ''U+x''"
  "\<not> documented_record ''U+''" "record_text ''U+'' = ''U+''"
  by (simp_all add: documented_record_def record_delta_def record_text_def decimal_digit_def
      decimal_value_def digit_value_def)

theorem get_nlink_fallback_or_delta_witness:
  "ovl_get_nlink (Some (sample_lower 2)) (Some (sample_upper_record 4 ''L+3'')) 9 = 5 \<and>
   ovl_get_nlink (Some (sample_lower 2)) (Some (sample_upper_record 4 ''U-1'')) 9 = 3 \<and>
   ovl_get_nlink (Some (sample_lower 2)) (Some (sample_upper_record 4 ''U-4'')) 9 = 9 \<and>
   ovl_get_nlink (Some (sample_lower 2)) (Some (sample_upper_record 4 ''X+3'')) 9 = 9 \<and>
   ovl_get_nlink (Some (sample_lower 2)) (Some (sample_upper_record 4 ''U 3'')) 9 = 9 \<and>
   ovl_get_nlink (Some (sample_lower 2)) (Some (sample_upper_record 4 ''U+x'')) 9 = 9 \<and>
   ovl_get_nlink (Some (sample_lower 2)) (Some (sample_upper_record 4 ''U+'')) 9 = 9 \<and>
   ovl_get_nlink (Some (sample_lower 2)) (Some (sample_upper 4)) 9 = 9 \<and>
   ovl_get_nlink (Some (sample_lower 1)) (Some (sample_upper_record 4 ''L+3'')) 9 = 9 \<and>
   ovl_get_nlink None (Some (sample_upper_record 4 ''L+3'')) 9 = 9 \<and>
   ovl_get_nlink (Some (sample_lower 2)) None 9 = 9"
proof -
  have e: "stored_record (sample_upper 4) = None"
    by (simp add: stored_record_def sample_upper_def sample_dentry_def)
  show ?thesis
    by (simp add: get_nlink_fallback_or_delta nlink_record_malformed_def nlink_selected_base_def
        nlink_delta_def sample_stored_record sample_nlinks record_samples e
        record_selects_lower_def)
qed

text \<open>
  The decoder accepts values that are not of the documented form, and refuses some that
  are. With an upper object of link count 4, a lower object of link count 2 and the
  fallback 9: the record U+2 followed by a newline, and the record U+2 followed by a NUL
  and two more bytes, both decode to 6; the record U+9999999999, of 12 bytes and of the
  documented form, decodes to the fallback. With an upper object of link count 2147483647
  the record U+1 decodes to the fallback.
\<close>

theorem get_nlink_undocumented_record_counterexample:
  "\<not> documented_record (''U+2'' @ [CHR 0x0A]) \<and>
   ovl_get_nlink (Some (sample_lower 2)) (Some (sample_upper_record 4 (''U+2'' @ [CHR 0x0A]))) 9 = 6 \<and>
   \<not> documented_record (''U+2'' @ [CHR 0x00] @ ''xx'') \<and>
   ovl_get_nlink (Some (sample_lower 2))
     (Some (sample_upper_record 4 (''U+2'' @ [CHR 0x00] @ ''xx''))) 9 = 6 \<and>
   documented_record ''U+9999999999'' \<and> length ''U+9999999999'' = 12 \<and>
   0 < 4 + record_delta ''U+9999999999'' \<and>
   ovl_get_nlink (Some (sample_lower 2)) (Some (sample_upper_record 4 ''U+9999999999'')) 9 = 9 \<and>
   documented_record ''U+1'' \<and> 0 < 2147483647 + record_delta ''U+1'' \<and>
   ovl_get_nlink (Some (sample_lower 2)) (Some (sample_upper_record 2147483647 ''U+1'')) 9 = 9"
proof -
  have d: "\<not> documented_record (''U+2'' @ [CHR 0x0A])"
    "\<not> documented_record (''U+2'' @ [CHR 0x00] @ ''xx'')"
    "documented_record ''U+9999999999''" "length ''U+9999999999'' = 12"
    "0 < 4 + record_delta ''U+9999999999''"
    "documented_record ''U+1''" "0 < 2147483647 + record_delta ''U+1''"
    by (simp_all add: documented_record_def record_delta_def decimal_digit_def
      decimal_value_def digit_value_def)
  have k: "kstrtoint ''+2'' = Inr 2" "kstrtoint (''+2'' @ [CHR 0x0A]) = Inr 2"
    "kstrtoint ''+9999999999'' = Inl (- ERANGE)" "kstrtoint ''+1'' = Inr 1"
    by code_simp+
  have g: "ovl_vfs_getxattr (sample_upper_record n r) OVL_XATTR_NLINK 12 =
      (if 12 < length r then Inl (- ERANGE) else Inr r)" for n r
    by (simp add: ovl_vfs_getxattr_def vfs_getxattr_def sample_upper_record_def)
  have "ovl_get_nlink (Some (sample_lower 2)) (Some (sample_upper_record 4 (''U+2'' @ [CHR 0x0A]))) 9 = 6"
    using k by (simp add: ovl_get_nlink_def g c_string_def NUL_def sample_nlinks)
  moreover have "ovl_get_nlink (Some (sample_lower 2))
     (Some (sample_upper_record 4 (''U+2'' @ [CHR 0x00] @ ''xx''))) 9 = 6"
    using k by (simp add: ovl_get_nlink_def g c_string_def NUL_def sample_nlinks)
  moreover have "ovl_get_nlink (Some (sample_lower 2)) (Some (sample_upper_record 4 ''U+9999999999'')) 9 = 9"
    using k by (simp add: ovl_get_nlink_def g c_string_def NUL_def sample_nlinks)
  moreover have "ovl_get_nlink (Some (sample_lower 2)) (Some (sample_upper_record 2147483647 ''U+1'')) 9 = 9"
    using k by (simp add: ovl_get_nlink_def g c_string_def NUL_def sample_nlinks)
  ultimately show ?thesis using d by blast
qed

lemma digit_char_spec:
  "0 \<le> n \<Longrightarrow> n < 10 \<Longrightarrow> decimal_digit (digit_char n) \<and> digit_value (digit_char n) = n"
  by (erule (1) digit_cases) (simp_all add: decimal_digit_def digit_value_def digit_char_def)

lemma decimal_value_snoc: "decimal_value (ds @ [c]) = 10 * decimal_value ds + digit_value c"
  by (simp add: decimal_value_def)

lemma dec_spec: "0 \<le> n \<Longrightarrow> list_all decimal_digit (dec n) \<and> decimal_value (dec n) = n"
proof (induction n rule: dec.induct)
  case (1 n)
  show ?case
  proof (cases "n < 10")
    case True
    then show ?thesis using 1(2) digit_char_spec [of n]
      by (simp add: dec.simps [of n] decimal_value_def)
  next
    case False
    then have ih: "list_all decimal_digit (dec (n div 10)) \<and> decimal_value (dec (n div 10)) = n div 10"
      using 1 by simp
    have m: "0 \<le> n mod 10" "n mod 10 < 10" by simp_all
    show ?thesis using False ih digit_char_spec [OF m]
      by (simp add: dec.simps [of n] decimal_value_snoc)
  qed
qed

lemma snprintf_nlink_spec:
  assumes "sel = CHR ''U'' \<or> sel = CHR ''L''"
  shows "documented_record (snprintf_nlink sel i) \<and> take 1 (snprintf_nlink sel i) = [sel] \<and>
         record_delta (snprintf_nlink sel i) = i"
  using assms dec_spec [of "\<bar>i\<bar>"] dec_nonempty [of "\<bar>i\<bar>"]
  by (auto simp: documented_record_def record_delta_def snprintf_nlink_def)

lemma set_nlink_common_accepted:
  assumes "ovl_dentry_upper dentry = Some upper" "d_setxattr_err upper OVL_XATTR_NLINK = 0"
  shows "ovl_set_nlink_common dentry real fmt =
     Some (0, dentry\<lparr>od_inode := (od_inode dentry)\<lparr>ovl_upperdentry :=
        Some (upper\<lparr>d_xattr := (d_xattr upper)(OVL_XATTR_NLINK :=
               Inr (snprintf_nlink fmt (sint (i_nlink (od_inode dentry) - i_nlink (d_inode real)))))\<rparr>)\<rparr>\<rparr>)"
proof -
  define i where "i = sint (i_nlink (od_inode dentry) - i_nlink (d_inode real))"
  have "length (snprintf_nlink fmt i) \<le> 12"
    using sint_range32 [of "i_nlink (od_inode dentry) - i_nlink (d_inode real)"]
    by (intro length_snprintf_nlink) (simp_all add: i_def)
  then have "\<not> 13 \<le> length (snprintf_nlink fmt i)" by simp
  then show ?thesis using assms
    by (simp add: ovl_set_nlink_common_def Let_def ovl_do_setxattr_def vfs_setxattr_def i_def [symmetric])
qed

lemma nlink_encode_decode:
  assumes u: "ovl_dentry_upper dentry = Some upper"
    and l: "ovl_dentry_lower dentry = Some lower"
    and a: "d_setxattr_err upper OVL_XATTR_NLINK = 0"
    and n: "i_nlink (d_inode lower) \<noteq> 1"
    and p: "0 < sint (i_nlink (od_inode dentry))"
    and sel: "sel = CHR ''U'' \<or> sel = CHR ''L''"
    and b: "base = (if sel = CHR ''L'' then lower else upper)"
  shows "\<exists>dentry' r. ovl_set_nlink_common dentry base sel = Some (0, dentry') \<and>
        map_option (\<lambda>u. d_xattr u OVL_XATTR_NLINK) (ovl_dentry_upper dentry') = Some (Inr r) \<and>
        documented_record r \<and> take 1 r = [sel] \<and> length r \<le> 12 \<and>
        record_delta r = sint (i_nlink (od_inode dentry) - i_nlink (d_inode base)) \<and>
        ovl_get_nlink (ovl_dentry_lower dentry') (ovl_dentry_upper dentry') fallback =
          i_nlink (od_inode dentry)"
proof -
  define r where "r = snprintf_nlink sel (sint (i_nlink (od_inode dentry) - i_nlink (d_inode base)))"
  define upper' where "upper' = upper\<lparr>d_xattr := (d_xattr upper)(OVL_XATTR_NLINK := Inr r)\<rparr>"
  define dentry' where "dentry' = dentry\<lparr>od_inode := (od_inode dentry)\<lparr>ovl_upperdentry := Some upper'\<rparr>\<rparr>"
  have s: "ovl_set_nlink_common dentry base sel = Some (0, dentry')"
    using set_nlink_common_accepted [OF u a, of base sel]
    by (simp add: dentry'_def upper'_def r_def)
  have u': "ovl_dentry_upper dentry' = Some upper'"
    by (simp add: dentry'_def ovl_dentry_upper_def)
  have l': "ovl_dentry_lower dentry' = Some lower"
    using l by (simp add: dentry'_def ovl_dentry_lower_def)
  have x: "d_xattr upper' OVL_XATTR_NLINK = Inr r" by (simp add: upper'_def)
  have i: "d_inode upper' = d_inode upper" by (simp add: upper'_def)
  have len: "length r \<le> 12"
    unfolding r_def
    using sint_range32 [of "i_nlink (od_inode dentry) - i_nlink (d_inode base)"]
    by (intro length_snprintf_nlink) simp_all
  have g: "ovl_get_nlink (Some lower) (Some upper') fallback = i_nlink (od_inode dentry)"
    by (rule get_nlink_after_store [where sel = sel]) (use n sel p x b i in \<open>simp_all add: r_def\<close>)
  show ?thesis
    using s u' l' x len g snprintf_nlink_spec [OF sel] by (auto simp: r_def)
qed


text \<open>
  Claim C3, as amended. When the writable object and the read-only object are both present,
  the writable object accepts the write of the record, the read-only object's link count is
  not 1 and the link count of the node is positive as a 32-bit \<^verbatim>\<open>int\<close>, then for every
  base link count the encode succeeds, with either selector: \<^verbatim>\<open>ovl_set_nlink_upper\<close> and
  \<^verbatim>\<open>ovl_set_nlink_lower\<close> return 0 and leave on the writable object a record of the
  documented form, of at most 12 bytes, with the selector letter of the base and the delta
  of the node's link count against the base's; and \<^verbatim>\<open>ovl_get_nlink\<close> on the objects as the
  encoding left them returns the link count of the node, whatever the fallback. Encoding a
  node of link count 5 against an upper object of link count 3 that accepts the write
  stores the record U+2, and decoding U+2 against an upper object of link count 4 returns 6.
\<close>

theorem nlink_roundtrip:
  "(ovl_dentry_upper dentry = Some upper \<and> ovl_dentry_lower dentry = Some lower \<and>
    d_setxattr_err upper OVL_XATTR_NLINK = 0 \<and>
    i_nlink (d_inode lower) \<noteq> 1 \<and> 0 < sint (i_nlink (od_inode dentry)) \<longrightarrow>
    (\<exists>dentry' r. ovl_set_nlink_upper dentry = Some (0, dentry') \<and>
        map_option (\<lambda>u. d_xattr u OVL_XATTR_NLINK) (ovl_dentry_upper dentry') = Some (Inr r) \<and>
        documented_record r \<and> take 1 r = ''U'' \<and> length r \<le> 12 \<and>
        record_delta r = sint (i_nlink (od_inode dentry) - i_nlink (d_inode upper)) \<and>
        ovl_get_nlink (ovl_dentry_lower dentry') (ovl_dentry_upper dentry') fallback =
          i_nlink (od_inode dentry)) \<and>
    (\<exists>dentry' r. ovl_set_nlink_lower dentry = Some (0, dentry') \<and>
        map_option (\<lambda>u. d_xattr u OVL_XATTR_NLINK) (ovl_dentry_upper dentry') = Some (Inr r) \<and>
        documented_record r \<and> take 1 r = ''L'' \<and> length r \<le> 12 \<and>
        record_delta r = sint (i_nlink (od_inode dentry) - i_nlink (d_inode lower)) \<and>
        ovl_get_nlink (ovl_dentry_lower dentry') (ovl_dentry_upper dentry') fallback =
          i_nlink (od_inode dentry))) \<and>
   (ovl_dentry_upper dentry = Some upper \<and> d_setxattr_err upper OVL_XATTR_NLINK = 0 \<and>
    i_nlink (d_inode upper) = 3 \<and> i_nlink (od_inode dentry) = 5 \<longrightarrow>
    (\<exists>dentry'. ovl_set_nlink_upper dentry = Some (0, dentry') \<and>
        map_option (\<lambda>u. d_xattr u OVL_XATTR_NLINK) (ovl_dentry_upper dentry') =
          Some (Inr ''U+2''))) \<and>
   (d_xattr upper OVL_XATTR_NLINK = Inr ''U+2'' \<and> i_nlink (d_inode upper) = 4 \<and>
    i_nlink (d_inode lower) \<noteq> 1 \<longrightarrow>
    ovl_get_nlink (Some lower) (Some upper) fallback = 6)"
proof (intro conjI impI)
  assume a: "ovl_dentry_upper dentry = Some upper \<and> ovl_dentry_lower dentry = Some lower \<and>
    d_setxattr_err upper OVL_XATTR_NLINK = 0 \<and>
    i_nlink (d_inode lower) \<noteq> 1 \<and> 0 < sint (i_nlink (od_inode dentry))"
  have su: "ovl_set_nlink_upper dentry = ovl_set_nlink_common dentry upper (CHR ''U'')"
    and sl: "ovl_set_nlink_lower dentry = ovl_set_nlink_common dentry lower (CHR ''L'')"
    using a by (simp_all add: ovl_set_nlink_upper_def ovl_set_nlink_lower_def)
  show "\<exists>dentry' r. ovl_set_nlink_upper dentry = Some (0, dentry') \<and>
        map_option (\<lambda>u. d_xattr u OVL_XATTR_NLINK) (ovl_dentry_upper dentry') = Some (Inr r) \<and>
        documented_record r \<and> take 1 r = ''U'' \<and> length r \<le> 12 \<and>
        record_delta r = sint (i_nlink (od_inode dentry) - i_nlink (d_inode upper)) \<and>
        ovl_get_nlink (ovl_dentry_lower dentry') (ovl_dentry_upper dentry') fallback =
          i_nlink (od_inode dentry)"
    unfolding su
    using nlink_encode_decode [where dentry = dentry and upper = upper and lower = lower
        and sel = "CHR ''U''" and base = upper and fallback = fallback] a
    by simp
  show "\<exists>dentry' r. ovl_set_nlink_lower dentry = Some (0, dentry') \<and>
        map_option (\<lambda>u. d_xattr u OVL_XATTR_NLINK) (ovl_dentry_upper dentry') = Some (Inr r) \<and>
        documented_record r \<and> take 1 r = ''L'' \<and> length r \<le> 12 \<and>
        record_delta r = sint (i_nlink (od_inode dentry) - i_nlink (d_inode lower)) \<and>
        ovl_get_nlink (ovl_dentry_lower dentry') (ovl_dentry_upper dentry') fallback =
          i_nlink (od_inode dentry)"
    unfolding sl
    using nlink_encode_decode [where dentry = dentry and upper = upper and lower = lower
        and sel = "CHR ''L''" and base = lower and fallback = fallback] a
    by simp
next
  assume a: "ovl_dentry_upper dentry = Some upper \<and> d_setxattr_err upper OVL_XATTR_NLINK = 0 \<and>
    i_nlink (d_inode upper) = 3 \<and> i_nlink (od_inode dentry) = 5"
  have p: "snprintf_nlink (CHR ''U'') (sint (5 - 3 :: u32)) = ''U+2''"
    by (simp add: snprintf_nlink_def dec.simps [of 2] digit_char_def)
  have "ovl_set_nlink_upper dentry = ovl_set_nlink_common dentry upper (CHR ''U'')"
    using a by (simp add: ovl_set_nlink_upper_def)
  then show "\<exists>dentry'. ovl_set_nlink_upper dentry = Some (0, dentry') \<and>
        map_option (\<lambda>u. d_xattr u OVL_XATTR_NLINK) (ovl_dentry_upper dentry') =
          Some (Inr ''U+2'')"
    using set_nlink_common_accepted [of dentry upper upper "CHR ''U''"] a p
    by (simp add: ovl_dentry_upper_def)
next
  assume a: "d_xattr upper OVL_XATTR_NLINK = Inr ''U+2'' \<and> i_nlink (d_inode upper) = 4 \<and>
    i_nlink (d_inode lower) \<noteq> 1"
  have k: "kstrtoint ''+2'' = Inr 2" by code_simp
  have c: "c_string ''U+2'' = ''U+2''" by (simp add: c_string_def NUL_def)
  have g: "vfs_getxattr upper OVL_XATTR_NLINK 12 = Inr ''U+2''"
    using a by (simp add: vfs_getxattr_def)
  show "ovl_get_nlink (Some lower) (Some upper) fallback = 6"
    using a by (simp add: ovl_get_nlink_def ovl_vfs_getxattr_def g c k)
qed

lemma sample_file_parts:
  "ovl_dentry_upper (sample_file n nu nl) = Some (sample_upper nu)"
  "ovl_dentry_lower (sample_file n nu nl) = Some (sample_lower nl)"
  "i_nlink (od_inode (sample_file n nu nl)) = n"
  "d_setxattr_err (sample_upper nu) name = 0"
  by (simp_all add: sample_file_def sample_ovl_dentry_def sample_ovl_inode_def
      ovl_dentry_upper_def ovl_dentry_lower_def sample_upper_def sample_dentry_def)

theorem nlink_roundtrip_witness:
  "fst (the (ovl_set_nlink_upper (sample_file 5 3 2))) = 0 \<and>
   ovl_get_nlink (ovl_dentry_lower (snd (the (ovl_set_nlink_upper (sample_file 5 3 2)))))
     (ovl_dentry_upper (snd (the (ovl_set_nlink_upper (sample_file 5 3 2))))) 3 = 5 \<and>
   fst (the (ovl_set_nlink_lower (sample_file 5 3 2))) = 0 \<and>
   ovl_get_nlink (ovl_dentry_lower (snd (the (ovl_set_nlink_lower (sample_file 5 3 2)))))
     (ovl_dentry_upper (snd (the (ovl_set_nlink_lower (sample_file 5 3 2))))) 3 = 5"
  using nlink_roundtrip [of "sample_file 5 3 2" "sample_upper 3" "sample_lower 2" 3]
  by (auto simp: sample_file_parts sample_nlinks)

text \<open>
  Outside these conditions the decoder answers the fallback and not the link count of the
  node. With a read-only object of link count 1 the record is never read: the node of link
  count 5 encodes against its upper object of link count 3, and the decoder answers the
  fallback 3. A node of link count 0 encodes, against an upper object of link count 3 and
  a read-only object of link count 2, the record U-3, and the decoder answers the fallback
  9. An upper object that refuses the write makes the encode fail and stores nothing, so
  the decoder answers the fallback 9 for the node of link count 5. A node with no
  read-only object encodes and the decoder answers the fallback 9.
\<close>

theorem nlink_roundtrip_counterexample:
  "fst (the (ovl_set_nlink_upper (sample_file 5 3 1))) = 0 \<and>
   i_nlink (od_inode (sample_file 5 3 1)) = 5 \<and>
   ovl_get_nlink (ovl_dentry_lower (snd (the (ovl_set_nlink_upper (sample_file 5 3 1)))))
     (ovl_dentry_upper (snd (the (ovl_set_nlink_upper (sample_file 5 3 1))))) 3 = 3 \<and>
   fst (the (ovl_set_nlink_upper (sample_file 0 3 2))) = 0 \<and>
   i_nlink (od_inode (sample_file 0 3 2)) = 0 \<and>
   map_option (\<lambda>u. d_xattr u OVL_XATTR_NLINK)
     (ovl_dentry_upper (snd (the (ovl_set_nlink_upper (sample_file 0 3 2))))) =
     Some (Inr ''U-3'') \<and>
   ovl_get_nlink (ovl_dentry_lower (snd (the (ovl_set_nlink_upper (sample_file 0 3 2)))))
     (ovl_dentry_upper (snd (the (ovl_set_nlink_upper (sample_file 0 3 2))))) 9 = 9 \<and>
   fst (the (ovl_set_nlink_upper (sample_refusing_file 5 3 2))) = - EPERM \<and>
   i_nlink (od_inode (sample_refusing_file 5 3 2)) = 5 \<and>
   ovl_get_nlink (ovl_dentry_lower (snd (the (ovl_set_nlink_upper (sample_refusing_file 5 3 2)))))
     (ovl_dentry_upper (snd (the (ovl_set_nlink_upper (sample_refusing_file 5 3 2))))) 9 = 9 \<and>
   fst (the (ovl_set_nlink_upper
     (sample_ovl_dentry (sample_ovl_inode S_IFREG 5 (Some (sample_upper 3)) None) []))) = 0 \<and>
   ovl_get_nlink
     (ovl_dentry_lower (snd (the (ovl_set_nlink_upper
       (sample_ovl_dentry (sample_ovl_inode S_IFREG 5 (Some (sample_upper 3)) None) [])))))
     (ovl_dentry_upper (snd (the (ovl_set_nlink_upper
       (sample_ovl_dentry (sample_ovl_inode S_IFREG 5 (Some (sample_upper 3)) None) []))))) 9 = 9"
proof -
  have k: "kstrtoint ''-3'' = Inr (- 3)" by code_simp
  have p: "snprintf_nlink (CHR ''U'') 2 = ''U+2''" "snprintf_nlink (CHR ''U'') (- 3) = ''U-3''"
    by (simp_all add: snprintf_nlink_def dec.simps [of 2] dec.simps [of 3] digit_char_def)
  show ?thesis
    using k
    by (simp add: ovl_set_nlink_upper_def ovl_set_nlink_common_def ovl_dentry_upper_def
        ovl_dentry_lower_def sample_lower_def sample_refusing_file_def
        sample_file_def sample_ovl_dentry_def sample_ovl_inode_def sample_upper_def
        sample_dentry_def sample_inode_def ovl_do_setxattr_def vfs_setxattr_def p
        Let_def ovl_get_nlink_def ovl_vfs_getxattr_def vfs_getxattr_def c_string_def NUL_def
        OVL_XATTR_NLINK_def OVL_XATTR_PREFIX_def EPERM_def ENODATA_def)
qed

subsection \<open>The node identity resolver\<close>

lemma verify_inode_iff:
  "ovl_verify_inode inode lowerdentry upperdentry =
     (\<not> verification_fails inode lowerdentry upperdentry)"
  by (cases lowerdentry; cases upperdentry)
     (auto simp: ovl_verify_inode_def verification_fails_def)

lemma get_inode_existing:
  assumes "upperdentry \<noteq> None \<or>
           ovl_hash_bylower (d_sb dentry) upperdentry (ovl_dentry_lower dentry) index"
    and "(if ovl_hash_bylower (d_sb dentry) upperdentry (ovl_dentry_lower dentry) index
          then ovl_dentry_lower dentry else upperdentry) = Some keydentry"
    and "find (\<lambda>i. ovl_inode_test i (i_addr (d_inode keydentry))) icache = Some inode"
    and "\<not> I_NEW inode"
  shows "ovl_get_inode icache fresh next_ino dentry upperdentry index =
           Some (if ovl_verify_inode inode (ovl_dentry_lower dentry) upperdentry
                 then Inr inode else Inl (- ESTALE), icache)"
proof (cases "ovl_hash_bylower (d_sb dentry) upperdentry (ovl_dentry_lower dentry) index")
  case True
  then have l: "ovl_dentry_lower dentry = Some keydentry" using assms(2) by simp
  show ?thesis
    using True l assms(3,4)
    by (cases upperdentry) (simp_all add: ovl_get_inode_def Let_def iget5_locked_def)
next
  case False
  then have u: "upperdentry = Some keydentry" using assms(2) by simp
  show ?thesis
    using False u assms(3,4)
    by (simp add: ovl_get_inode_def Let_def iget5_locked_def)
qed

text \<open>
  Claim C2, as amended. A resolution that finds an existing cached node returns the node
  iff the verification succeeds and the stale-identity error \<^verbatim>\<open>-ESTALE\<close> otherwise. The
  verification fails exactly when a supplied read-only object differs from the stored
  origin reference, a supplied writable object differs from the stored upper reference,
  or, for a directory, the node holds a lower (or an upper) reference while the lookup
  supplies none. For a node that is not a directory an absent argument never invalidates
  the node: a lookup that supplies neither object verifies, and leaving out an argument of
  a lookup that verifies still verifies.
\<close>

theorem get_inode_verifies_cached_node:
  "((upperdentry \<noteq> None \<or>
     ovl_hash_bylower (d_sb dentry) upperdentry (ovl_dentry_lower dentry) index) \<and>
    (if ovl_hash_bylower (d_sb dentry) upperdentry (ovl_dentry_lower dentry) index
     then ovl_dentry_lower dentry else upperdentry) = Some keydentry \<and>
    find (\<lambda>i. ovl_inode_test i (i_addr (d_inode keydentry))) icache = Some inode \<and>
    \<not> I_NEW inode \<longrightarrow>
    ovl_get_inode icache fresh next_ino dentry upperdentry index =
      Some (if verification_fails inode (ovl_dentry_lower dentry) upperdentry
            then Inl (- ESTALE) else Inr inode, icache)) \<and>
   (\<not> S_ISDIR (i_mode inode) \<longrightarrow>
      \<not> verification_fails inode None None \<and>
      (\<not> verification_fails inode l u \<longrightarrow>
         \<not> verification_fails inode None u \<and> \<not> verification_fails inode l None))"
proof (intro conjI impI)
  assume a: "(upperdentry \<noteq> None \<or>
     ovl_hash_bylower (d_sb dentry) upperdentry (ovl_dentry_lower dentry) index) \<and>
    (if ovl_hash_bylower (d_sb dentry) upperdentry (ovl_dentry_lower dentry) index
     then ovl_dentry_lower dentry else upperdentry) = Some keydentry \<and>
    find (\<lambda>i. ovl_inode_test i (i_addr (d_inode keydentry))) icache = Some inode \<and>
    \<not> I_NEW inode"
  then show "ovl_get_inode icache fresh next_ino dentry upperdentry index =
      Some (if verification_fails inode (ovl_dentry_lower dentry) upperdentry
            then Inl (- ESTALE) else Inr inode, icache)"
    using get_inode_existing [of upperdentry dentry index keydentry icache inode fresh next_ino]
    by (simp add: verify_inode_iff)
qed (auto simp: verification_fails_def)

lemmas sample_defs =
  sample_inode_def sample_dentry_def sample_sb_def sample_ovl_inode_def sample_ovl_dentry_def
  sample_upper_def sample_lower_def sample_upper_dir_def sample_lower_dir_def
  sample_dir_node_def

lemmas mode_defs =
  S_ISDIR_def S_IFMT_def S_IFDIR_def S_IFREG_def S_IFLNK_def S_IFCHR_def S_IFBLK_def
  S_IFIFO_def S_IFSOCK_def

theorem get_inode_verifies_cached_node_witness:
  "ovl_get_inode [sample_file_node] None 0 sample_file_lookup (Some (sample_upper 1)) None =
     Some (Inr sample_file_node, [sample_file_node]) \<and>
   \<not> verification_fails sample_file_node None None"
proof -
  have h: "ovl_hash_bylower (d_sb sample_file_lookup) (Some (sample_upper 1))
             (ovl_dentry_lower sample_file_lookup) None = False"
    by (simp add: ovl_hash_bylower_def ovl_dentry_lower_def sample_defs sample_dir_lookup_def sample_file_node_def sample_file_lookup_def)
  have f: "find (\<lambda>i. ovl_inode_test i (i_addr (d_inode (sample_upper 1)))) [sample_file_node] =
             Some sample_file_node"
    by (simp add: ovl_inode_test_def sample_defs sample_dir_lookup_def sample_file_node_def sample_file_lookup_def)
  have n: "\<not> I_NEW sample_file_node" "\<not> S_ISDIR (i_mode sample_file_node)"
    by (simp_all add: sample_defs sample_dir_lookup_def sample_file_node_def sample_file_lookup_def mode_defs)
  have v: "\<not> verification_fails sample_file_node (ovl_dentry_lower sample_file_lookup)
               (Some (sample_upper 1))"
    by (simp add: verification_fails_def ovl_dentry_lower_def ovl_inode_upper_def
        ovl_inode_lower_def sample_defs sample_dir_lookup_def sample_file_node_def sample_file_lookup_def mode_defs)
  show ?thesis
    using get_inode_verifies_cached_node [of "Some (sample_upper 1)" sample_file_lookup None
        "sample_upper 1" "[sample_file_node]" sample_file_node None 0 None None] h f n v
    by simp
qed

text \<open>
  A directory node that holds a lower reference, found by a lookup that supplies the
  matching upper directory and no lower one: the absent argument invalidates the node.
\<close>

theorem get_inode_absent_lower_counterexample:
  "ovl_inode_lower sample_dir_node \<noteq> None \<and>
   ovl_dentry_lower sample_dir_lookup = None \<and>
   ovl_get_inode [sample_dir_node] None 0 sample_dir_lookup (Some sample_upper_dir) None =
     Some (Inl (- ESTALE), [sample_dir_node])"
  by (simp add: ovl_get_inode_def ovl_hash_bylower_def ovl_dentry_lower_def iget5_locked_def
      ovl_inode_test_def ovl_verify_inode_def ovl_inode_lower_def ovl_inode_upper_def
      sample_defs sample_dir_lookup_def sample_file_node_def sample_file_lookup_def mode_defs Let_def)

subsection \<open>Get attributes\<close>

lemma getattr_nlink_keeps:
  "ovl_getattr_nlink dentry type stat = (e, st) \<Longrightarrow> e = 0 \<and> dev st = dev stat \<and> ino st = ino stat"
  by (auto simp: ovl_getattr_nlink_def Let_def split: if_splits)

lemma getattr_origin:
  assumes "\<not> (CONFIG \<and> lowerdata_resolves paths)"
    and "same_sb (d_sb dentry)"
    and "OVL_TYPE_ORIGIN (path_type paths)"
    and "nlink (origin_stat g paths dentry flags) = 1"
    and "ovl_getattr CONFIG g paths dentry request_mask flags = (0, st)"
  shows "dev st = s_dev (d_sb dentry) \<and> ino st = ino (origin_stat g paths dentry flags)"
proof -
  obtain e1 s1 where r: "g (path_real paths) request_mask flags = (e1, s1)"
    by (cases "g (path_real paths) request_mask flags")
  obtain e2 s2 where l: "g (path_lower paths)
      (STATX_INO OR (if \<not> S_ISDIR (i_mode (od_inode dentry)) then STATX_NLINK else 0)) flags = (e2, s2)"
    by (cases "g (path_lower paths)
      (STATX_INO OR (if \<not> S_ISDIR (i_mode (od_inode dentry)) then STATX_NLINK else 0)) flags")
  have o: "origin_stat g paths dentry flags = s2" by (simp add: origin_stat_def l)
  have "ovl_getattr_nlink dentry (path_type paths)
          (s1\<lparr>ino := ino s2, dev := s_dev (d_sb dentry)\<rparr>) = (0, st)"
    using assms r l o
    by (auto simp: ovl_getattr_def lowerdata_resolves_def Let_def split: if_splits)
  from getattr_nlink_keeps [OF this] show ?thesis by (simp add: o)
qed

lemma getattr_unpromoted:
  assumes "\<not> (CONFIG \<and> lowerdata_resolves paths)"
    and "same_sb (d_sb dentry)"
    and "\<not> OVL_TYPE_ORIGIN (path_type paths)"
    and "ovl_getattr CONFIG g paths dentry request_mask flags = (0, st)"
  shows "dev st = s_dev (d_sb dentry) \<and> ino st = ino (snd (g (path_real paths) request_mask flags))"
proof -
  obtain e1 s1 where r: "g (path_real paths) request_mask flags = (e1, s1)"
    by (cases "g (path_real paths) request_mask flags")
  have "ovl_getattr_nlink dentry (path_type paths) (s1\<lparr>dev := s_dev (d_sb dentry)\<rparr>) = (0, st)"
    using assms r
    by (auto simp: ovl_getattr_def lowerdata_resolves_def Let_def split: if_splits)
  from getattr_nlink_keeps [OF this] show ?thesis by (simp add: r)
qed

lemma getattr_tracked_origin:
  assumes "\<not> (CONFIG \<and> lowerdata_resolves paths)"
    and "same_sb (d_sb dentry)"
    and "tracked_origin paths"
    and "nlink (origin_stat g paths dentry flags) = 1"
    and "ovl_getattr CONFIG g paths dentry request_mask flags = (0, st)"
  shows "dev st = s_dev (d_sb dentry) \<and> ino st = origin_ino g paths dentry request_mask flags"
proof (cases "OVL_TYPE_ORIGIN (path_type paths)")
  case True
  then show ?thesis
    using getattr_origin [OF assms(1,2) True assms(4,5)] by (simp add: origin_ino_def)
next
  case False
  then have "path_real paths = path_lower paths"
    using assms(3) by (simp add: tracked_origin_def)
  then show ?thesis
    using getattr_unpromoted [OF assms(1,2) False assms(5)] False by (simp add: origin_ino_def)
qed

text \<open>
  Claim C5, as amended. Unless the build enables \<open>CONFIG_KSU_SUSFS_SUS_OVERLAYFS\<close> and
  the lower data path of the node resolves: for two nodes of one mount whose layers are all
  on the same storage, each with a tracked origin whose link count is 1, be the node
  promoted or not, a successful get-attributes reports the device of the mount for both and
  for each the inode number of its origin; so when the two nodes share an origin inode
  number the pair of device and inode number is the same for both, and in particular it is
  stable across promotion: the node before its promotion and the promoted node report the
  same pair.
\<close>

theorem getattr_stable_identity:
  "\<not> (CONFIG \<and> lowerdata_resolves p1) \<and> \<not> (CONFIG \<and> lowerdata_resolves p2) \<and>
   same_sb (d_sb d1) \<and> d_sb d2 = d_sb d1 \<and>
   tracked_origin p1 \<and> tracked_origin p2 \<and>
   nlink (origin_stat g p1 d1 f1) = 1 \<and> nlink (origin_stat g p2 d2 f2) = 1 \<and>
   ovl_getattr CONFIG g p1 d1 m1 f1 = (0, st1) \<and>
   ovl_getattr CONFIG g p2 d2 m2 f2 = (0, st2) \<longrightarrow>
   dev st1 = s_dev (d_sb d1) \<and> dev st2 = dev st1 \<and>
   ino st1 = origin_ino g p1 d1 m1 f1 \<and> ino st2 = origin_ino g p2 d2 m2 f2 \<and>
   (origin_ino g p1 d1 m1 f1 = origin_ino g p2 d2 m2 f2 \<longrightarrow>
      (dev st2, ino st2) = (dev st1, ino st1)) \<and>
   (\<not> OVL_TYPE_ORIGIN (path_type p1) \<and> OVL_TYPE_ORIGIN (path_type p2) \<and>
    ino (snd (g (path_real p1) m1 f1)) = ino (origin_stat g p2 d2 f2) \<longrightarrow>
      (dev st2, ino st2) = (dev st1, ino st1))"
proof
  assume a: "\<not> (CONFIG \<and> lowerdata_resolves p1) \<and> \<not> (CONFIG \<and> lowerdata_resolves p2) \<and>
   same_sb (d_sb d1) \<and> d_sb d2 = d_sb d1 \<and>
   tracked_origin p1 \<and> tracked_origin p2 \<and>
   nlink (origin_stat g p1 d1 f1) = 1 \<and> nlink (origin_stat g p2 d2 f2) = 1 \<and>
   ovl_getattr CONFIG g p1 d1 m1 f1 = (0, st1) \<and>
   ovl_getattr CONFIG g p2 d2 m2 f2 = (0, st2)"
  have 1: "dev st1 = s_dev (d_sb d1) \<and> ino st1 = origin_ino g p1 d1 m1 f1"
    using a by (intro getattr_tracked_origin [where CONFIG = CONFIG]) simp_all
  have 2: "dev st2 = s_dev (d_sb d2) \<and> ino st2 = origin_ino g p2 d2 m2 f2"
    using a by (intro getattr_tracked_origin [where CONFIG = CONFIG]) simp_all
  have 3: "\<not> OVL_TYPE_ORIGIN (path_type p1) \<Longrightarrow>
      origin_ino g p1 d1 m1 f1 = ino (snd (g (path_real p1) m1 f1))"
    using a by (simp add: origin_ino_def tracked_origin_def)
  have 4: "OVL_TYPE_ORIGIN (path_type p2) \<Longrightarrow>
      origin_ino g p2 d2 m2 f2 = ino (origin_stat g p2 d2 f2)"
    by (simp add: origin_ino_def)
  show "dev st1 = s_dev (d_sb d1) \<and> dev st2 = dev st1 \<and>
   ino st1 = origin_ino g p1 d1 m1 f1 \<and> ino st2 = origin_ino g p2 d2 m2 f2 \<and>
   (origin_ino g p1 d1 m1 f1 = origin_ino g p2 d2 m2 f2 \<longrightarrow>
      (dev st2, ino st2) = (dev st1, ino st1)) \<and>
   (\<not> OVL_TYPE_ORIGIN (path_type p1) \<and> OVL_TYPE_ORIGIN (path_type p2) \<and>
    ino (snd (g (path_real p1) m1 f1)) = ino (origin_stat g p2 d2 f2) \<longrightarrow>
      (dev st2, ino st2) = (dev st1, ino st1))"
    using 1 2 3 4 a by simp
qed

lemmas getattr_defs =
  ovl_getattr_def ovl_getattr_nlink_def lowerdata_resolves_def origin_stat_def
  OVL_TYPE_ORIGIN_def OVL_TYPE_MERGE_def OVL_PATH_UPPER_def OVL_PATH_MERGE_def
  OVL_PATH_ORIGIN_def STATX_INO_def STATX_NLINK_def ovl_test_flag_def
  sample_getattr_def sample_paths_def sample_paths_unresolved_def sample_file_def

lemma sample_file_getattr:
  "ovl_getattr False sample_getattr sample_paths (sample_file 1 1 1) 0 0 =
     (0, \<lparr>dev = 42, ino = 20, nlink = 1, mode = S_IFREG\<rparr>)"
  "ovl_getattr True sample_getattr sample_paths_unresolved (sample_file 1 1 1) 0 0 =
     (0, \<lparr>dev = 42, ino = 20, nlink = 1, mode = S_IFREG\<rparr>)"
  by (simp_all add: getattr_defs sample_defs mode_defs Let_def)

lemma sample_unpromoted_getattr:
  "ovl_getattr False sample_getattr sample_paths_unpromoted sample_lower_file 0 0 =
     (0, \<lparr>dev = 42, ino = 20, nlink = 1, mode = S_IFREG\<rparr>)"
  by (simp add: getattr_defs sample_defs mode_defs sample_paths_unpromoted_def
      sample_lower_file_def Let_def)

theorem getattr_stable_identity_witness:
  "\<not> OVL_TYPE_ORIGIN (path_type sample_paths_unpromoted) \<and>
   OVL_TYPE_ORIGIN (path_type sample_paths) \<and>
   path_lower sample_paths_unpromoted = path_lower sample_paths \<and>
   ovl_getattr False sample_getattr sample_paths_unpromoted sample_lower_file 0 0 =
     (0, \<lparr>dev = 42, ino = 20, nlink = 1, mode = S_IFREG\<rparr>) \<and>
   ovl_getattr False sample_getattr sample_paths (sample_file 1 1 1) 0 0 =
     (0, \<lparr>dev = 42, ino = 20, nlink = 1, mode = S_IFREG\<rparr>) \<and>
   s_dev (d_sb sample_lower_file) = 42 \<and>
   origin_ino sample_getattr sample_paths_unpromoted sample_lower_file 0 0 = 20 \<and>
   origin_ino sample_getattr sample_paths (sample_file 1 1 1) 0 0 = 20"
proof -
  have h: "same_sb (d_sb sample_lower_file)" "s_dev (d_sb sample_lower_file) = 42"
    "d_sb (sample_file 1 1 1) = d_sb sample_lower_file"
    "\<not> OVL_TYPE_ORIGIN (path_type sample_paths_unpromoted)"
    "OVL_TYPE_ORIGIN (path_type sample_paths)"
    "path_lower sample_paths_unpromoted = path_lower sample_paths"
    "tracked_origin sample_paths_unpromoted" "tracked_origin sample_paths"
    "nlink (origin_stat sample_getattr sample_paths_unpromoted sample_lower_file 0) = 1"
    "nlink (origin_stat sample_getattr sample_paths (sample_file 1 1 1) 0) = 1"
    by (simp_all add: getattr_defs sample_defs mode_defs tracked_origin_def
        sample_paths_unpromoted_def sample_lower_file_def)
  show ?thesis
    using getattr_stable_identity [where CONFIG = False and ?p1.0 = sample_paths_unpromoted
        and ?p2.0 = sample_paths and ?d1.0 = sample_lower_file and ?d2.0 = "sample_file 1 1 1"
        and g = sample_getattr and ?f1.0 = 0 and ?f2.0 = 0 and ?m1.0 = 0 and ?m2.0 = 0
        and ?st1.0 = "\<lparr>dev = 42, ino = 20, nlink = 1, mode = S_IFREG\<rparr>"
        and ?st2.0 = "\<lparr>dev = 42, ino = 20, nlink = 1, mode = S_IFREG\<rparr>"]
      h sample_file_getattr(1) sample_unpromoted_getattr
    by simp
qed

text \<open>
  With the build option enabled and a lower data path that resolves, the promoted file of
  a same-storage mount with device 42 reports the device 8 of the underlying filesystem.
\<close>

theorem getattr_lowerdata_counterexample:
  "same_sb (d_sb (sample_file 1 1 1)) \<and> s_dev (d_sb (sample_file 1 1 1)) = 42 \<and>
   OVL_TYPE_ORIGIN (path_type sample_paths) \<and>
   nlink (origin_stat sample_getattr sample_paths (sample_file 1 1 1) 0) = 1 \<and>
   ovl_getattr True sample_getattr sample_paths (sample_file 1 1 1) 0 0 =
     (0, \<lparr>dev = 8, ino = 20, nlink = 1, mode = S_IFREG\<rparr>)"
  by (simp add: getattr_defs sample_defs mode_defs Let_def)

text \<open>
  Claim C10. With \<open>CONFIG_KSU_SUSFS_SUS_OVERLAYFS\<close> enabled and a lower data path that
  resolves to a mount and an object, \<^verbatim>\<open>ovl_getattr\<close> returns what the underlying
  filesystem answers for that path, error and attributes, with no projection rule
  applied; when the path does not resolve it does what the build without the option does.
\<close>

theorem getattr_lowerdata_verbatim:
  "(lowerdata_resolves paths \<longrightarrow>
      ovl_getattr True g paths dentry request_mask flags =
        g (path_lowerdata paths) request_mask flags) \<and>
   (\<not> lowerdata_resolves paths \<longrightarrow>
      ovl_getattr True g paths dentry request_mask flags =
        ovl_getattr False g paths dentry request_mask flags)"
  by (simp add: ovl_getattr_def lowerdata_resolves_def Let_def)

theorem getattr_lowerdata_verbatim_witness:
  "lowerdata_resolves sample_dir_paths \<and>
   ovl_getattr True sample_getattr sample_dir_paths sample_dir 0 0 =
     (0, \<lparr>dev = 8, ino = 40, nlink = 2, mode = S_IFDIR\<rparr>) \<and>
   ovl_getattr False sample_getattr sample_dir_paths sample_dir 0 0 =
     (0, \<lparr>dev = 42, ino = 40, nlink = 1, mode = S_IFDIR\<rparr>) \<and>
   \<not> lowerdata_resolves sample_paths_unresolved \<and>
   ovl_getattr True sample_getattr sample_paths_unresolved (sample_file 1 1 1) 0 0 =
     (0, \<lparr>dev = 42, ino = 20, nlink = 1, mode = S_IFREG\<rparr>)"
proof -
  have r: "lowerdata_resolves sample_dir_paths" "\<not> lowerdata_resolves sample_paths_unresolved"
    by (simp_all add: getattr_defs sample_dir_paths_def sample_dir_def)
  have v: "sample_getattr (path_lowerdata sample_dir_paths) 0 0 =
     (0, \<lparr>dev = 8, ino = 40, nlink = 2, mode = S_IFDIR\<rparr>)"
    by (simp add: getattr_defs sample_dir_paths_def sample_dir_def sample_defs)
  have f: "ovl_getattr False sample_getattr sample_dir_paths sample_dir 0 0 =
     (0, \<lparr>dev = 42, ino = 40, nlink = 1, mode = S_IFDIR\<rparr>)"
    by (simp add: getattr_defs sample_dir_paths_def sample_dir_def sample_defs mode_defs Let_def)
  show ?thesis
    using getattr_lowerdata_verbatim [of sample_dir_paths sample_getattr sample_dir 0 0]
      getattr_lowerdata_verbatim [of sample_paths_unresolved sample_getattr "sample_file 1 1 1" 0 0]
      r v f sample_file_getattr
    by simp
qed

subsection \<open>Set attributes\<close>

lemma copyattr_refreshed: "metadata_refreshed (ovl_copyattr real inode) real"
  by (simp add: metadata_refreshed_def ovl_copyattr_def)

lemma copyattr_upperdentry [simp]: "ovl_upperdentry (ovl_copyattr real inode) = ovl_upperdentry inode"
  by (simp add: ovl_copyattr_def)

lemma setattr_success:
  assumes "ovl_setattr ops dentry writers attr = Some (0, dentry', writers', attr')"
  shows "\<exists>upper. ovl_dentry_upper dentry' = Some upper \<and>
                  metadata_refreshed (od_inode dentry') (d_inode upper)"
  using assms
  by (auto simp: ovl_setattr_def Let_def ovl_dentry_upper_def copyattr_refreshed
      split: prod.splits if_splits option.splits)

text \<open>
  Claim C6. \<^verbatim>\<open>ovl_setattr\<close> runs the precondition check first: when it fails, its error
  is returned with the dentry, the writers of the mount and the attributes untouched, so
  no write intent was taken and no promotion ran. On every successful return a writable
  object exists and the cached metadata of the node are those of its inode.
\<close>

theorem setattr_validates_then_promotes:
  "(setattr_prepare ops dentry attr \<noteq> 0 \<longrightarrow>
      ovl_setattr ops dentry writers attr =
        Some (setattr_prepare ops dentry attr, dentry, writers, attr)) \<and>
   (ovl_setattr ops dentry writers attr = Some (0, dentry', writers', attr') \<longrightarrow>
      (\<exists>upper. ovl_dentry_upper dentry' = Some upper \<and>
                metadata_refreshed (od_inode dentry') (d_inode upper)))"
  using setattr_success [of ops dentry writers attr dentry' writers' attr']
  by (simp add: ovl_setattr_def Let_def)

lemmas ops_defs =
  sample_ops_def sample_copy_up_def sample_lower_file_def
  ovl_want_write_def ovl_drop_write_def ovl_dentry_upper_def ovl_dentry_lower_def
  ovl_inode_upper_def ovl_inode_lower_def

theorem setattr_validates_then_promotes_witness:
  "ovl_dentry_upper sample_lower_file = None \<and>
   ovl_setattr (sample_ops\<lparr>setattr_prepare := (\<lambda>d a. - EPERM)\<rparr>) sample_lower_file 0 sample_attr =
     Some (- EPERM, sample_lower_file, 0, sample_attr) \<and>
   fst (the (ovl_setattr sample_ops sample_lower_file 0 sample_attr)) = 0 \<and>
   ovl_dentry_upper (fst (snd (the (ovl_setattr sample_ops sample_lower_file 0 sample_attr)))) \<noteq> None \<and>
   i_mode (od_inode (fst (snd (the (ovl_setattr sample_ops sample_lower_file 0 sample_attr))))) = 0x81A4"
proof -
  have p: "setattr_prepare (sample_ops\<lparr>setattr_prepare := (\<lambda>d a. - EPERM)\<rparr>) sample_lower_file
             sample_attr = - EPERM" "- EPERM \<noteq> (0::int)"
    by (simp_all add: EPERM_def)
  have s: "ovl_setattr sample_ops sample_lower_file 0 sample_attr \<noteq> None"
    "fst (the (ovl_setattr sample_ops sample_lower_file 0 sample_attr)) = 0"
    "i_mode (od_inode (fst (snd (the (ovl_setattr sample_ops sample_lower_file 0 sample_attr))))) = 0x81A4"
    by (simp_all add: ovl_setattr_def ops_defs sample_defs sample_attr_def ovl_copyattr_def Let_def
        ATTR_MODE_def ATTR_KILL_SUID_def ATTR_KILL_SGID_def)
  obtain d w a where r: "ovl_setattr sample_ops sample_lower_file 0 sample_attr = Some (0, d, w, a)"
    using s(1,2) by (cases "ovl_setattr sample_ops sample_lower_file 0 sample_attr") auto
  have u: "ovl_dentry_upper sample_lower_file = None"
    by (simp add: ops_defs sample_defs sample_attr_def)
  show ?thesis
    using setattr_validates_then_promotes [of "sample_ops\<lparr>setattr_prepare := (\<lambda>d a. - EPERM)\<rparr>"
        sample_lower_file sample_attr 0 d w a]
      setattr_validates_then_promotes [of sample_ops sample_lower_file sample_attr 0 d w a]
      p s r u
    by auto
qed

subsection \<open>Permission\<close>

lemma bit_MAY:
  "bit MAY_WRITE n \<longleftrightarrow> n = 1" "bit MAY_READ n \<longleftrightarrow> n = 2" "bit MAY_APPEND n \<longleftrightarrow> n = 3"
proof -
  have w: "MAY_WRITE = push_bit 1 1" "MAY_READ = push_bit 2 1" "MAY_APPEND = push_bit 3 1"
    by (simp_all add: MAY_WRITE_def MAY_READ_def MAY_APPEND_def)
  show "bit MAY_WRITE n \<longleftrightarrow> n = 1" "bit MAY_READ n \<longleftrightarrow> n = 2" "bit MAY_APPEND n \<longleftrightarrow> n = 3"
    unfolding w by (auto simp only: bit_push_bit_iff bit_1_iff possible_bit_word len_of_numeral_defs)
qed

lemma downgraded_mask_code:
  "downgraded_mask m ((m AND NOT (MAY_WRITE OR MAY_APPEND)) OR MAY_READ)"
  unfolding downgraded_mask_def
  by (intro conjI bit_eqI) (auto simp: bit_and_iff bit_or_iff bit_not_iff bit_MAY)

text \<open>
  Claim C7. For a permission check on a node with no writable object, whose underlying
  object is no special file, with write access in the mask: the check of the logical node
  runs first, on the mask as requested and with the credentials of the caller, and its
  failure is the result, whatever the underlying object would answer; otherwise the
  underlying object is checked with the credentials of the mounter on the mask with write
  and append removed and read added.
\<close>

theorem permission_downgrades_write:
  "ovl_inode_upper inode = None \<and> ovl_inode_lower inode = Some realinode \<and>
   \<not> special_file (i_mode realinode) \<and> msk AND MAY_WRITE \<noteq> 0 \<longrightarrow>
   downgraded_mask msk ((msk AND NOT (MAY_WRITE OR MAY_APPEND)) OR MAY_READ) \<and>
   ovl_permission ops inode msk =
     (if generic_permission ops Caller inode msk \<noteq> 0
      then generic_permission ops Caller inode msk
      else inode_permission ops Mounter realinode
             ((msk AND NOT (MAY_WRITE OR MAY_APPEND)) OR MAY_READ))"
  using downgraded_mask_code [of msk] by (simp add: ovl_permission_def Let_def)

theorem permission_downgrades_write_witness:
  "ovl_permission sample_ops (od_inode sample_lower_file) (MAY_WRITE OR MAY_APPEND) = 0 \<and>
   ovl_permission (sample_ops\<lparr>generic_permission := (\<lambda>c i m. - EACCES)\<rparr>)
     (od_inode sample_lower_file) (MAY_WRITE OR MAY_APPEND) = - EACCES \<and>
   inode_permission sample_ops Mounter (d_inode (sample_lower 1)) (MAY_WRITE OR MAY_APPEND) = - EACCES"
proof -
  have h: "ovl_inode_upper (od_inode sample_lower_file) = None"
    "ovl_inode_lower (od_inode sample_lower_file) = Some (d_inode (sample_lower 1))"
    "\<not> special_file (i_mode (d_inode (sample_lower 1)))"
    "(MAY_WRITE OR MAY_APPEND) AND MAY_WRITE \<noteq> 0"
    by (simp_all add: ops_defs sample_defs special_file_def mode_defs MAY_WRITE_def MAY_APPEND_def)
  show ?thesis
    using permission_downgrades_write [of "od_inode sample_lower_file" "d_inode (sample_lower 1)"
        "MAY_WRITE OR MAY_APPEND" sample_ops]
      permission_downgrades_write [of "od_inode sample_lower_file" "d_inode (sample_lower 1)"
        "MAY_WRITE OR MAY_APPEND" "sample_ops\<lparr>generic_permission := (\<lambda>c i m. - EACCES)\<rparr>"]
      h
    by (simp add: sample_ops_def EACCES_def MAY_WRITE_def MAY_APPEND_def MAY_READ_def)
qed

subsection \<open>Setting and removing extended attributes\<close>

text \<open>
  Claim C9, as amended. For a removal (a call with no value) on a node with no writable
  object, once write intent is held: \<^verbatim>\<open>ovl_xattr_set\<close> first reads the attribute from the
  read-only object; when that read fails its error is returned with the dentry as it was,
  so no promotion ran and no writable object was made, and the write intent is released;
  when it succeeds the promotion runs, its failure is returned, and after its success the
  attribute is removed from the writable object.
\<close>

theorem xattr_remove_checks_lower_first:
  "val = None \<and> ovl_dentry_upper dentry = None \<and> ovl_dentry_lower dentry = Some lower \<and>
   mnt_want_write ops = 0 \<longrightarrow>
   (vfs_getxattr lower name 0 = Inl e \<longrightarrow>
      ovl_xattr_set ops dentry writers name val flags = Some (e, dentry, writers)) \<and>
   (vfs_getxattr lower name 0 = Inr v \<longrightarrow>
      ovl_xattr_set ops dentry writers name val flags =
        (case ovl_copy_up ops dentry of
           (err, promoted) \<Rightarrow>
             if err \<noteq> 0 then Some (err, promoted, writers)
             else
               (case ovl_dentry_upper promoted of
                  None \<Rightarrow> None
                | Some upper \<Rightarrow>
                    (case vfs_removexattr upper name of
                       (err, upper) \<Rightarrow>
                         Some (err,
                               promoted\<lparr>od_inode := (od_inode promoted)
                                          \<lparr>ovl_upperdentry := Some upper\<rparr>\<rparr>,
                               writers)))))"
  by (auto simp: ovl_xattr_set_def ovl_xattr_set_upper_def ovl_want_write_def ovl_drop_write_def ovl_dentry_upper_def
      Let_def split: prod.splits option.splits)

theorem xattr_remove_checks_lower_first_witness:
  "ovl_dentry_upper sample_lower_file = None \<and>
   vfs_getxattr (sample_lower 1) ''user.a'' 0 = Inl (- ENODATA) \<and>
   ovl_xattr_set sample_ops sample_lower_file 0 ''user.a'' None 0 =
     Some (- ENODATA, sample_lower_file, 0)"
proof -
  have h: "ovl_dentry_upper sample_lower_file = None"
    "ovl_dentry_lower sample_lower_file = Some (sample_lower 1)"
    "mnt_want_write sample_ops = 0"
    "vfs_getxattr (sample_lower 1) ''user.a'' 0 = Inl (- ENODATA)"
    by (simp_all add: ops_defs sample_defs vfs_getxattr_def)
  show ?thesis
    using xattr_remove_checks_lower_first [of None sample_lower_file "sample_lower 1" sample_ops
        "''user.a''" "- ENODATA" 0 0] h
    by simp
qed

text \<open>
  Setting an attribute that the read-only object does not have, on a node with no
  writable object: no existence check is made, the node is promoted and the attribute is
  stored on the new writable object.
\<close>

theorem xattr_set_absent_counterexample:
  "ovl_dentry_upper sample_lower_file = None \<and>
   vfs_getxattr (sample_lower 1) ''user.a'' 0 = Inl (- ENODATA) \<and>
   fst (the (ovl_xattr_set sample_ops sample_lower_file 0 ''user.a'' (Some ''v'') 0)) = 0 \<and>
   map_option (\<lambda>u. d_xattr u ''user.a'')
     (ovl_dentry_upper (fst (snd (the
        (ovl_xattr_set sample_ops sample_lower_file 0 ''user.a'' (Some ''v'') 0))))) =
     Some (Inr ''v'')"
  by (simp add: ovl_xattr_set_def ovl_xattr_set_upper_def ops_defs sample_defs vfs_getxattr_def vfs_setxattr_def
      XATTR_CREATE_def XATTR_REPLACE_def Let_def)

subsection \<open>Listing extended attributes\<close>

lemma prefix_lengths: "length XATTR_TRUSTED_PREFIX = 8" "length OVL_XATTR_PREFIX = 16"
  by (simp_all add: XATTR_TRUSTED_PREFIX_def OVL_XATTR_PREFIX_def)

lemma internal_privileged: "internal_xattr n \<Longrightarrow> privileged_xattr n"
proof -
  assume "internal_xattr n"
  then have "take 8 (take 16 n) = take 8 ''trusted.overlay.''"
    by (simp only: internal_xattr_def)
  then show ?thesis by (simp add: privileged_xattr_def)
qed

lemma can_list_iff: "ovl_can_list capable n = listed_xattr capable n"
  using internal_privileged [of n]
  unfolding ovl_can_list_def ovl_is_private_xattr_def prefix_lengths
  by (auto simp: listed_xattr_def internal_xattr_def privileged_xattr_def
      XATTR_TRUSTED_PREFIX_def OVL_XATTR_PREFIX_def)

lemma split_nul_name:
  "NUL \<notin> set n \<Longrightarrow> split_nul (n @ NUL # rest) acc = (rev acc @ n) # split_nul rest []"
  by (induction n arbitrary: acc) auto

lemma xattr_names_list:
  "\<forall>n\<in>set names. NUL \<notin> set n \<Longrightarrow> xattr_names (xattr_list names) = names"
proof (induction names)
  case Nil
  then show ?case by (simp add: xattr_names_def xattr_list_def)
next
  case (Cons n names)
  then have "xattr_names (xattr_list names) = names" by simp
  then show ?case using Cons.prems split_nul_name [of n "xattr_list names" "[]"]
    by (simp add: xattr_names_def xattr_list_def)
qed

lemma xattr_list_Cons: "xattr_list (n # names) = n @ NUL # xattr_list names"
  by (simp add: xattr_list_def)

lemma strnlen_name:
  "NUL \<notin> set n \<Longrightarrow> length n < maxlen \<Longrightarrow> strnlen (n @ NUL # rest) maxlen = length n"
  by (cases "maxlen - length n") (simp_all add: strnlen_def takeWhile_append)

lemma c_string_name: "NUL \<notin> set n \<Longrightarrow> c_string (n @ NUL # rest) = n"
  by (simp add: c_string_def takeWhile_append)

lemma filter_loop:
  assumes "\<forall>n\<in>set names. NUL \<notin> set n"
  shows "\<exists>junk. ovl_listxattr_filter capable (pre @ xattr_list names @ post) (length pre)
                  (length (xattr_list names)) res =
           (res - int (length (xattr_list names))
              + int (length (xattr_list (filter (ovl_can_list capable) names))),
            pre @ xattr_list (filter (ovl_can_list capable) names) @ junk)"
  using assms
proof (induction names arbitrary: pre post res)
  case Nil
  show ?case
    by (subst ovl_listxattr_filter.simps) (simp add: xattr_list_def)
next
  case (Cons n names)
  let ?list = "pre @ xattr_list (n # names) @ post"
  let ?len = "length (xattr_list (n # names))"
  have nn: "NUL \<notin> set n" and rest: "\<forall>m\<in>set names. NUL \<notin> set m" using Cons.prems by auto
  have d: "xattr_list (n # names) @ post = n @ NUL # (xattr_list names @ post)"
    by (simp add: xattr_list_Cons)
  have len: "?len = Suc (length n + length (xattr_list names))"
    by (simp add: xattr_list_Cons)
  have sl: "strnlen (xattr_list (n # names) @ post) (Suc (length n + length (xattr_list names))) =
            length n"
    unfolding d using nn by (intro strnlen_name) simp_all
  have cs: "c_string (xattr_list (n # names) @ post) = n"
    unfolding d using nn by (rule c_string_name)
  show ?case
  proof (cases "ovl_can_list capable n")
    case True
    from Cons.IH [OF rest, of "pre @ n @ [NUL]" post res]
    obtain junk where j: "ovl_listxattr_filter capable ((pre @ n @ [NUL]) @ xattr_list names @ post)
         (length (pre @ n @ [NUL])) (length (xattr_list names)) res =
        (res - int (length (xattr_list names))
           + int (length (xattr_list (filter (ovl_can_list capable) names))),
         (pre @ n @ [NUL]) @ xattr_list (filter (ovl_can_list capable) names) @ junk)"
      by blast
    have "ovl_listxattr_filter capable ?list (length pre) ?len res =
          ovl_listxattr_filter capable ?list (length pre + (length n + 1))
            (length (xattr_list names)) res"
      by (subst ovl_listxattr_filter.simps) (simp add: sl cs True len)
    also have "\<dots> = (res - int (length (xattr_list names))
           + int (length (xattr_list (filter (ovl_can_list capable) names))),
         (pre @ n @ [NUL]) @ xattr_list (filter (ovl_can_list capable) names) @ junk)"
      using j by (simp add: xattr_list_Cons)
    finally show ?thesis using True by (auto simp: xattr_list_Cons)
  next
    case False
    define post' where "post' = drop (length (xattr_list names)) (n @ NUL # xattr_list names @ post)"
    have m: "memmove ?list (length pre) (length pre + (length n + 1)) (length (xattr_list names)) =
             pre @ xattr_list names @ post'"
      by (simp add: memmove_def xattr_list_Cons post'_def)
    from Cons.IH [OF rest, of pre post' "res - int (length n + 1)"]
    obtain junk where j: "ovl_listxattr_filter capable (pre @ xattr_list names @ post')
         (length pre) (length (xattr_list names)) (res - int (length n + 1)) =
        (res - int (length n + 1) - int (length (xattr_list names))
           + int (length (xattr_list (filter (ovl_can_list capable) names))),
         pre @ xattr_list (filter (ovl_can_list capable) names) @ junk)"
      by blast
    have "ovl_listxattr_filter capable ?list (length pre) ?len res =
          ovl_listxattr_filter capable
            (memmove ?list (length pre) (length pre + (length n + 1)) (length (xattr_list names)))
            (length pre) (length (xattr_list names)) (res - int (length n + 1))"
      by (subst ovl_listxattr_filter.simps) (simp add: sl cs False len)
    also have "\<dots> = (res - int (length n + 1) - int (length (xattr_list names))
           + int (length (xattr_list (filter (ovl_can_list capable) names))),
         pre @ xattr_list (filter (ovl_can_list capable) names) @ junk)"
      unfolding m using j by simp
    finally show ?thesis using False by (auto simp: len)
  qed
qed

lemma filter_xattr_list:
  assumes "\<forall>n\<in>set names. NUL \<notin> set n"
  shows "\<exists>junk. ovl_listxattr_filter capable (xattr_list names @ post) 0
                  (length (xattr_list names)) (int (length (xattr_list names))) =
           (int (length (xattr_list (filter (listed_xattr capable) names))),
            xattr_list (filter (listed_xattr capable) names) @ junk)"
proof -
  have f: "filter (ovl_can_list capable) names = filter (listed_xattr capable) names"
    using can_list_iff [of capable] by (intro filter_cong) simp_all
  from filter_loop [OF assms, of capable "[]" post "int (length (xattr_list names))"]
  show ?thesis by (simp add: f)
qed

lemma xattr_list_nonempty: "names \<noteq> [] \<Longrightarrow> 0 < length (xattr_list names)"
  by (cases names) (simp_all add: xattr_list_Cons)

text \<open>
  Claim C8. For a successful list into a buffer, of an object whose attribute names the
  underlying filesystem lists: the list returned holds, in their order, the names that are
  not internal and, for a caller without the administrative capability, not privileged.
  So an internal attribute is never in it, a privileged attribute that is not internal is
  in it exactly for a caller with the capability, and an attribute outside the privileged
  namespace is always in it.
\<close>

theorem listxattr_hides_internal_and_privileged:
  "ovl_dentry_real dentry = Some real \<and> sz \<noteq> 0 \<and> names \<noteq> [] \<and>
   (\<forall>n\<in>set names. NUL \<notin> set n) \<and>
   vfs_listxattr ops Mounter real sz =
     (int (length (xattr_list names)), xattr_list names @ rest) \<longrightarrow>
   (\<exists>res buf. ovl_listxattr ops dentry sz = Some (int res, buf) \<and>
      xattr_names (take res buf) = filter (listed_xattr (ns_capable_noaudit ops)) names \<and>
      (\<forall>n\<in>set names.
         (internal_xattr n \<longrightarrow> n \<notin> set (xattr_names (take res buf))) \<and>
         (privileged_xattr n \<and> \<not> internal_xattr n \<longrightarrow>
            (n \<in> set (xattr_names (take res buf)) \<longleftrightarrow> ns_capable_noaudit ops)) \<and>
         (\<not> privileged_xattr n \<longrightarrow> n \<in> set (xattr_names (take res buf)))))"
proof
  assume a: "ovl_dentry_real dentry = Some real \<and> sz \<noteq> 0 \<and> names \<noteq> [] \<and>
   (\<forall>n\<in>set names. NUL \<notin> set n) \<and>
   vfs_listxattr ops Mounter real sz =
     (int (length (xattr_list names)), xattr_list names @ rest)"
  let ?kept = "filter (listed_xattr (ns_capable_noaudit ops)) names"
  from a have nul: "\<forall>n\<in>set names. NUL \<notin> set n" by simp
  from filter_xattr_list [OF nul, of "ns_capable_noaudit ops" rest]
  obtain junk where j: "ovl_listxattr_filter (ns_capable_noaudit ops) (xattr_list names @ rest) 0
                  (length (xattr_list names)) (int (length (xattr_list names))) =
           (int (length (xattr_list ?kept)), xattr_list ?kept @ junk)"
    by blast
  have r: "ovl_listxattr ops dentry sz = Some (int (length (xattr_list ?kept)), xattr_list ?kept @ junk)"
    using a xattr_list_nonempty [of names] j by (simp add: ovl_listxattr_def)
  have k: "xattr_names (take (length (xattr_list ?kept)) (xattr_list ?kept @ junk)) = ?kept"
    using nul by (simp add: xattr_names_list)
  have m: "\<forall>n\<in>set names.
         (internal_xattr n \<longrightarrow> n \<notin> set ?kept) \<and>
         (privileged_xattr n \<and> \<not> internal_xattr n \<longrightarrow>
            (n \<in> set ?kept \<longleftrightarrow> ns_capable_noaudit ops)) \<and>
         (\<not> privileged_xattr n \<longrightarrow> n \<in> set ?kept)"
    using internal_privileged by (auto simp: listed_xattr_def)
  show "\<exists>res buf. ovl_listxattr ops dentry sz = Some (int res, buf) \<and>
      xattr_names (take res buf) = ?kept \<and>
      (\<forall>n\<in>set names.
         (internal_xattr n \<longrightarrow> n \<notin> set (xattr_names (take res buf))) \<and>
         (privileged_xattr n \<and> \<not> internal_xattr n \<longrightarrow>
            (n \<in> set (xattr_names (take res buf)) \<longleftrightarrow> ns_capable_noaudit ops)) \<and>
         (\<not> privileged_xattr n \<longrightarrow> n \<in> set (xattr_names (take res buf))))"
    using r k m by (intro exI [of _ "length (xattr_list ?kept)"] exI [of _ "xattr_list ?kept @ junk"]) simp
qed

theorem listxattr_hides_internal_and_privileged_witness:
  "(\<exists>res buf. ovl_listxattr (sample_list_ops False) sample_lower_file 64 = Some (int res, buf) \<and>
      xattr_names (take res buf) = [''user.a'']) \<and>
   (\<exists>res buf. ovl_listxattr (sample_list_ops True) sample_lower_file 64 = Some (int res, buf) \<and>
      xattr_names (take res buf) = [''user.a'', ''trusted.b''])"
proof -
  have h: "ovl_dentry_real sample_lower_file = Some (sample_lower 1)" "(64::nat) \<noteq> 0"
    "sample_names \<noteq> []" "\<forall>n\<in>set sample_names. NUL \<notin> set n"
    "\<And>admin. vfs_listxattr (sample_list_ops admin) Mounter (sample_lower 1) 64 =
       (int (length (xattr_list sample_names)), xattr_list sample_names @ [])"
    "\<And>admin. ns_capable_noaudit (sample_list_ops admin) = admin"
    by (simp_all add: ovl_dentry_real_def ops_defs sample_defs sample_names_def NUL_def
        sample_list_ops_def)
  have f: "filter (listed_xattr False) sample_names = [''user.a'']"
    "filter (listed_xattr True) sample_names = [''user.a'', ''trusted.b'']"
    by (simp_all add: listed_xattr_def internal_xattr_def privileged_xattr_def sample_names_def)
  show ?thesis
    using listxattr_hides_internal_and_privileged [of sample_lower_file "sample_lower 1" 64
        sample_names "sample_list_ops False" "[]"]
      listxattr_hides_internal_and_privileged [of sample_lower_file "sample_lower 1" 64
        sample_names "sample_list_ops True" "[]"]
      h f
    by auto
qed

end
